theory Spec2Isabelle
  imports Complex_Main "HOL-Library.Word" "HOL-Library.List_Lexorder"
begin

unbundle bit_operations_syntax

section \<open>JavaScript integer operators\<close>

text \<open>
  The bitwise operators of the source work on 32-bit integers: \<open>x|0\<close> converts to a
  signed 32-bit value, \<open>x >>> 0\<close> to an unsigned one, \<open>&\<close>, \<open>~\<close> and \<open><<\<close> return
  signed 32-bit values, and a shift count is taken modulo 32. They are written on
  \<open>int\<close> with the wrap-around spelled out; the bitwise operators of \<open>int\<close> are those of
  two's complement, so reducing the result to 32 bits is the same as reducing the operands.
\<close>

type_synonym byte = "8 word"

definition toInt32 :: "int \<Rightarrow> int" where
  "toInt32 x = (x + 2 ^ 31) mod 2 ^ 32 - 2 ^ 31"

definition toUint32 :: "int \<Rightarrow> int" where
  "toUint32 x = x mod 2 ^ 32"

definition js_and :: "int \<Rightarrow> int \<Rightarrow> int" where
  "js_and a b = toInt32 (a AND b)"

definition js_or :: "int \<Rightarrow> int \<Rightarrow> int" where
  "js_or a b = toInt32 (a OR b)"

definition js_not :: "int \<Rightarrow> int" where
  "js_not a = toInt32 (NOT a)"

definition js_shl :: "int \<Rightarrow> nat \<Rightarrow> int" where
  "js_shl a n = toInt32 (a * 2 ^ (n mod 32))"

definition js_ushr :: "int \<Rightarrow> nat \<Rightarrow> int" where
  "js_ushr a n = toUint32 a div 2 ^ (n mod 32)"

section \<open>Outcomes\<close>

datatype ref_table = ObjectTable | StringTable | BufferTable

text \<open>
  The exceptions of the program, by what raises them: \<open>RangeError\<close>, \<open>TypeError\<close> and
  \<open>SyntaxError\<close> come from the host (a \<open>DataView\<close> access out of bounds, a typed array
  that does not fit its buffer, a conversion the host refuses); the others are the
  \<open>Error\<close>s the program throws itself, named after their messages.
  \<open>Unmodelled\<close> marks a step of the host that the model does not follow (a string
  or an object used as a number, a call of a function given by the user).
\<close>

datatype error =
    RangeError
  | TypeError
  | SyntaxError
  | Unmodelled
  | UnknownElementType byte
  | UnsupportedPackedArrayType byte
  | InvalidData
  | UnsupportedVersion int
  | UnexpectedEnd
  | BufferUnderflow
  | InvalidReference ref_table int
  | UnknownType byte
  | UnknownPrimitive byte
  | UnknownNumberType byte
  | UnknownBigIntType byte
  | UnknownPackedArrayType byte
  | UnknownTypedArrayType byte
  | UnknownDateType byte
  | UnknownSpecialType byte
  | UnknownExtensionType byte
  | FunctionNotSerialized
  | FunctionDeserializationFailed

text \<open>
  A call returns a value, throws, or exhausts the recursion budget of the model
  (\<open>OutOfFuel\<close>, which is not an outcome of the program).
\<close>

datatype 'a result = Ok 'a | Err error | OutOfFuel

definition bind :: "'a result \<Rightarrow> ('a \<Rightarrow> 'b result) \<Rightarrow> 'b result" where
  "bind m f = (case m of Ok x \<Rightarrow> f x | Err e \<Rightarrow> Err e | OutOfFuel \<Rightarrow> OutOfFuel)"

section \<open>UltraMemoryPool\<close>

definition CACHE_LINE_SIZE :: int where
  "CACHE_LINE_SIZE = 128"

text \<open>
  The pool: \<open>psize\<close> is the capacity, which is also the length of the buffer; \<open>u8\<close>
  gives the byte at each offset of the buffer (the views \<open>u8\<close> and \<open>view\<close> of the
  source are on the same buffer; only offsets from 0 up to \<open>psize\<close> are part of it);
  \<open>pos\<close> is the cursor.
  \<open>writes\<close> is not a field of the source: it records, for every write that the pool
  aligns, the offset the data was placed at and the alignment asked for, newest first,
  so that the alignment law of the format can be stated.
\<close>

record pool =
  psize :: int
  u8 :: "int \<Rightarrow> byte"
  pos :: int
  writes :: "(int \<times> int) list"

definition cache_align :: "int \<Rightarrow> int" where
  "cache_align n = toUint32 (js_and (n + CACHE_LINE_SIZE - 1) (js_not (CACHE_LINE_SIZE - 1)))"

definition new_pool :: "int \<Rightarrow> pool" where
  "new_pool initialSize = \<lparr>psize = cache_align initialSize, u8 = (\<lambda>i. 0), pos = 0, writes = []\<rparr>"

text \<open>The end of \<open>subarray(0, end)\<close> on a typed array of length \<open>l\<close>: clamped to the
  length, a negative end counting from the back.\<close>

definition subarray_end :: "int \<Rightarrow> int \<Rightarrow> int" where
  "subarray_end l e = (if e < 0 then max (l + e) 0 else min e l)"

text \<open>The bytes of the buffer from \<open>i\<close>, \<open>n\<close> of them.\<close>

definition bytes_at :: "(int \<Rightarrow> byte) \<Rightarrow> int \<Rightarrow> nat \<Rightarrow> byte list" where
  "bytes_at f i n = map (\<lambda>j. f (i + int j)) [0..<n]"

text \<open>The buffer with the bytes \<open>bs\<close> stored from offset \<open>i\<close>.\<close>

definition store_bytes :: "int \<Rightarrow> byte list \<Rightarrow> (int \<Rightarrow> byte) \<Rightarrow> int \<Rightarrow> byte" where
  "store_bytes i bs f = (\<lambda>j. if i \<le> j \<and> j < i + int (length bs) then bs ! nat (j - i) else f j)"

text \<open>\<open>ensure\<close>: the new buffer is zero but for the copy of
  \<open>this.u8.subarray(0, this.pos)\<close>, which the host refuses if it is longer than the new
  buffer.\<close>

definition ensure :: "int \<Rightarrow> pool \<Rightarrow> pool result" where
  "ensure bytes0 p =
     (let bytes = toInt32 bytes0;
          required = toInt32 (pos p + bytes)
      in if required > psize p then
           (let newSize = toInt32 (max (js_shl (psize p) 1) (required + CACHE_LINE_SIZE));
                alignedSize = cache_align newSize;
                copied = subarray_end (psize p) (pos p)
            in if copied > alignedSize then Err RangeError
               else Ok (p\<lparr>u8 := (\<lambda>j. if 0 \<le> j \<and> j < copied then u8 p j else 0),
                          psize := alignedSize\<rparr>))
         else Ok p)"

definition alignPos :: "int \<Rightarrow> pool \<Rightarrow> pool" where
  "alignPos alignment p =
     (let mask = toInt32 (alignment - 1)
      in p\<lparr>pos := toUint32 (js_and (pos p + mask) (js_not mask))\<rparr>)"

text \<open>An element store \<open>this.u8[i] = v\<close>: the value is reduced modulo 256; a store
  outside the array is dropped without an error.\<close>

definition u8_store :: "int \<Rightarrow> int \<Rightarrow> pool \<Rightarrow> pool" where
  "u8_store i v p =
     (if 0 \<le> i \<and> i < psize p then p\<lparr>u8 := (u8 p)(i := word_of_int v)\<rparr> else p)"

text \<open>A \<open>DataView\<close> setter: throws when the bytes do not fit in the buffer.\<close>

definition view_set :: "int \<Rightarrow> byte list \<Rightarrow> pool \<Rightarrow> pool result" where
  "view_set i bs p =
     (if 0 \<le> i \<and> i + int (length bs) \<le> psize p
      then Ok (p\<lparr>u8 := store_bytes i bs (u8 p)\<rparr>)
      else Err RangeError)"

definition le_bytes :: "nat \<Rightarrow> int \<Rightarrow> byte list" where
  "le_bytes k v = map (\<lambda>j. word_of_int (v div 2 ^ (8 * j))) [0..<k]"

definition writeU8 :: "int \<Rightarrow> pool \<Rightarrow> pool result" where
  "writeU8 v p0 =
     bind (ensure 1 p0) (\<lambda>p. Ok (u8_store (pos p) (js_and v 0xFF) p\<lparr>pos := pos p + 1\<rparr>))"

text \<open>The common shape of the aligned scalar writes: align, ensure, store through the
  \<open>DataView\<close>, advance.\<close>

definition write_view :: "int \<Rightarrow> byte list \<Rightarrow> pool \<Rightarrow> pool result" where
  "write_view k bs p0 =
     (let p1 = alignPos k p0
      in bind (ensure k p1) (\<lambda>p2.
         bind (view_set (pos p2) bs p2) (\<lambda>p3.
         Ok (p3\<lparr>pos := toInt32 (pos p3 + k), writes := (pos p3, k) # writes p3\<rparr>))))"

definition writeU16 :: "int \<Rightarrow> pool \<Rightarrow> pool result" where
  "writeU16 v = write_view 2 (le_bytes 2 (js_and v 0xFFFF))"

definition writeI16 :: "int \<Rightarrow> pool \<Rightarrow> pool result" where
  "writeI16 v = write_view 2 (le_bytes 2 v)"

definition writeU32 :: "int \<Rightarrow> pool \<Rightarrow> pool result" where
  "writeU32 v = write_view 4 (le_bytes 4 (toUint32 v))"

definition writeI32 :: "int \<Rightarrow> pool \<Rightarrow> pool result" where
  "writeI32 v = write_view 4 (le_bytes 4 (toInt32 v))"


text \<open>\<open>writeVarint\<close>: the general case is a do-while loop on a local cursor.\<close>

function varint_loop :: "int \<Rightarrow> int \<Rightarrow> pool \<Rightarrow> int \<times> int \<times> pool" where
  "varint_loop v i p =
     (let p1 = u8_store i (js_or (js_and v 0x7F) 0x80) p;
          v1 = js_ushr v 7
      in if v1 \<ge> 0x80 then varint_loop v1 (i + 1) p1 else (v1, i + 1, p1))"
  by pat_completeness auto
termination
  by (relation "measure (\<lambda>(v, i, p). nat (toUint32 v))")
     (auto simp: js_ushr_def toUint32_def)

definition writeVarint :: "int \<Rightarrow> pool \<Rightarrow> pool result" where
  "writeVarint value0 p0 =
     (let v = toUint32 value0
      in bind (ensure 5 p0) (\<lambda>p.
         if v < 0x80 then Ok (u8_store (pos p) v p\<lparr>pos := pos p + 1\<rparr>)
         else if v < 0x4000 then
           Ok ((u8_store (pos p + 1) (js_ushr v 7)
                 (u8_store (pos p) (js_or (js_and v 0x7F) 0x80) p))
               \<lparr>pos := toInt32 (pos p + 2)\<rparr>)
         else
           (let (v1, i, p1) = varint_loop v (pos p) p
            in Ok ((u8_store i v1 p1)\<lparr>pos := i + 1\<rparr>))))"

section \<open>Numbers\<close>

text \<open>
  A JavaScript number is an IEEE 754 double: not-a-number, an infinity, negative zero,
  or a finite value, kept here as the rational it denotes (\<open>Fin 0\<close> is positive zero).
\<close>

datatype jsnum = NaN | PosInf | NegInf | NegZero | Fin rat

definition trunc :: "rat \<Rightarrow> int" where
  "trunc r = (if r < 0 then \<lceil>r\<rceil> else \<lfloor>r\<rfloor>)"

text \<open>\<open>val|0\<close> on a number.\<close>

fun num_toInt32 :: "jsnum \<Rightarrow> int" where
  "num_toInt32 (Fin r) = toInt32 (trunc r)"
| "num_toInt32 _ = 0"

text \<open>\<open>val >>> 0\<close> on a number.\<close>

fun num_toUint32 :: "jsnum \<Rightarrow> int" where
  "num_toUint32 (Fin r) = toUint32 (trunc r)"
| "num_toUint32 _ = 0"

text \<open>The order of the extended reals, with both zeros at the same place.\<close>

fun xval :: "jsnum \<Rightarrow> int \<times> rat" where
  "xval NegInf = (-1, 0)"
| "xval PosInf = (1, 0)"
| "xval NegZero = (0, 0)"
| "xval (Fin r) = (0, r)"
| "xval NaN = (0, 0)"

definition num_eq :: "jsnum \<Rightarrow> jsnum \<Rightarrow> bool" where
  "num_eq a b = (a \<noteq> NaN \<and> b \<noteq> NaN \<and> xval a = xval b)"

definition num_lt :: "jsnum \<Rightarrow> jsnum \<Rightarrow> bool" where
  "num_lt a b = (a \<noteq> NaN \<and> b \<noteq> NaN \<and>
     (fst (xval a) < fst (xval b) \<or> (fst (xval a) = fst (xval b) \<and> snd (xval a) < snd (xval b))))"

definition num_le :: "jsnum \<Rightarrow> jsnum \<Rightarrow> bool" where
  "num_le a b = (num_lt a b \<or> num_eq a b)"

fun num_abs :: "jsnum \<Rightarrow> jsnum" where
  "num_abs NaN = NaN"
| "num_abs PosInf = PosInf"
| "num_abs NegInf = PosInf"
| "num_abs NegZero = Fin 0"
| "num_abs (Fin r) = Fin \<bar>r\<bar>"

text \<open>\<open>Math.min\<close> and \<open>Math.max\<close>: not-a-number is contagious, and negative zero is
  below positive zero.\<close>

definition num_min :: "jsnum \<Rightarrow> jsnum \<Rightarrow> jsnum" where
  "num_min a b =
     (if a = NaN \<or> b = NaN then NaN
      else if num_lt a b then a
      else if num_lt b a then b
      else if b = NegZero then b else a)"

definition num_max :: "jsnum \<Rightarrow> jsnum \<Rightarrow> jsnum" where
  "num_max a b =
     (if a = NaN \<or> b = NaN then NaN
      else if num_lt a b then b
      else if num_lt b a then a
      else if a = NegZero then b else a)"

text \<open>The sign bit of the representation (\<open>highBits >>> 31\<close>).\<close>

fun sign_bit :: "jsnum \<Rightarrow> bool" where
  "sign_bit NegInf = True"
| "sign_bit NegZero = True"
| "sign_bit (Fin r) = (r < 0)"
| "sign_bit _ = False"

text \<open>
  The odd part of a positive integer and the exponent of two that was taken out, and the
  number of binary digits.
\<close>

function strip2 :: "int \<Rightarrow> int \<times> int" where
  "strip2 n = (if n \<le> 0 \<or> odd n then (n, 0) else (let (m, j) = strip2 (n div 2) in (m, j + 1)))"
  by pat_completeness auto
termination
  by (relation "measure (\<lambda>n. nat n)") auto

function bit_length :: "int \<Rightarrow> int" where
  "bit_length n = (if n \<le> 0 then 0 else 1 + bit_length (n div 2))"
  by pat_completeness auto
termination
  by (relation "measure (\<lambda>n. nat n)") auto

text \<open>
  A rational is a finite binary floating-point value with \<open>p\<close> digits of precision and
  least exponent \<open>emin\<close> (of the last digit) and greatest magnitude below \<open>2 ^ emax\<close> when,
  written as an odd numerator times a power of two, the numerator has at most \<open>p\<close> digits
  and the exponent is in range. Single precision is \<open>p = 24\<close>, \<open>emin = -149\<close>,
  \<open>emax = 128\<close>; double precision is \<open>p = 53\<close>, \<open>emin = -1074\<close>, \<open>emax = 1024\<close>.
\<close>

definition binary_float :: "int \<Rightarrow> int \<Rightarrow> int \<Rightarrow> rat \<Rightarrow> bool" where
  "binary_float p emin emax r =
     (let (n, d) = quotient_of r;
          (m, j) = strip2 \<bar>n\<bar>;
          (d1, k) = strip2 d;
          e = j - k
      in n = 0 \<or> (d1 = 1 \<and> bit_length m \<le> p \<and> emin \<le> e \<and> bit_length m + e \<le> emax))"

definition is_f32 :: "rat \<Rightarrow> bool" where
  "is_f32 = binary_float 24 (-149) 128"

definition is_f64 :: "rat \<Rightarrow> bool" where
  "is_f64 = binary_float 53 (-1074) 1024"

text \<open>
  \<open>Math.fround(val) == val\<close>: rounding to single precision returns the same number
  exactly when the number is a single-precision value; not-a-number equals nothing.
\<close>

fun fround_same :: "jsnum \<Rightarrow> bool" where
  "fround_same NaN = False"
| "fround_same (Fin r) = is_f32 r"
| "fround_same _ = True"

subsection \<open>The binary interchange formats\<close>

definition pow2 :: "int \<Rightarrow> rat" where
  "pow2 k = (if 0 \<le> k then 2 ^ nat k else 1 / 2 ^ nat (- k))"

definition floor_log2 :: "rat \<Rightarrow> int" where
  "floor_log2 a =
     (let (n, d) = quotient_of a;
          k = bit_length n - bit_length d
      in if pow2 k \<le> a then k else k - 1)"

definition round_half_even :: "rat \<Rightarrow> int" where
  "round_half_even q =
     (let f = \<lfloor>q\<rfloor>; d = q - of_int f
      in if d < 1 / 2 then f else if 1 / 2 < d then f + 1 else if even f then f else f + 1)"

text \<open>
  The bit pattern of a number in a format with \<open>p\<close> digits of precision and \<open>w\<close> exponent
  bits, rounding to nearest (ties to even); not-a-number is written as the quiet pattern
  with an empty payload.
\<close>

definition float_bits :: "nat \<Rightarrow> nat \<Rightarrow> jsnum \<Rightarrow> int" where
  "float_bits p w x =
     (let bias = 2 ^ (w - 1) - 1;
          emin = 1 - bias;
          inf = (2 ^ w - 1) * 2 ^ (p - 1);
          sgn = (if sign_bit x then 2 ^ (p - 1 + w) else 0)
      in case x of
           NaN \<Rightarrow> inf + 2 ^ (p - 2)
         | PosInf \<Rightarrow> inf
         | NegInf \<Rightarrow> sgn + inf
         | NegZero \<Rightarrow> sgn
         | Fin r \<Rightarrow>
             (if r = 0 then 0
              else
                (let a = \<bar>r\<bar>;
                     e = floor_log2 a;
                     m = round_half_even (a / pow2 (max e emin - (int p - 1)));
                     pat = (if emin \<le> e then (e + bias) * 2 ^ (p - 1) + (m - 2 ^ (p - 1)) else m)
                 in sgn + min pat inf)))"

definition bits_float :: "nat \<Rightarrow> nat \<Rightarrow> int \<Rightarrow> jsnum" where
  "bits_float p w pat =
     (let bias = 2 ^ (w - 1) - 1;
          neg = (pat div 2 ^ (p - 1 + w)) mod 2 = 1;
          ef = (pat div 2 ^ (p - 1)) mod 2 ^ w;
          mant = pat mod 2 ^ (p - 1)
      in if ef = 2 ^ w - 1 then (if mant = 0 then (if neg then NegInf else PosInf) else NaN)
         else if ef = 0 \<and> mant = 0 then (if neg then NegZero else Fin 0)
         else
           (let a = (if ef = 0 then of_int mant * pow2 (1 - bias - (int p - 1))
                     else of_int (2 ^ (p - 1) + mant) * pow2 (ef - bias - (int p - 1)))
            in Fin (if neg then - a else a)))"

section \<open>Wire tags\<close>

abbreviation (input) TYPE_NULL :: byte where "TYPE_NULL \<equiv> 0x00"
abbreviation (input) TYPE_UNDEFINED :: byte where "TYPE_UNDEFINED \<equiv> 0x01"
abbreviation (input) TYPE_FALSE :: byte where "TYPE_FALSE \<equiv> 0x02"
abbreviation (input) TYPE_TRUE :: byte where "TYPE_TRUE \<equiv> 0x03"
abbreviation (input) TYPE_INT8 :: byte where "TYPE_INT8 \<equiv> 0x10"
abbreviation (input) TYPE_INT16 :: byte where "TYPE_INT16 \<equiv> 0x11"
abbreviation (input) TYPE_INT32 :: byte where "TYPE_INT32 \<equiv> 0x12"
abbreviation (input) TYPE_UINT32 :: byte where "TYPE_UINT32 \<equiv> 0x13"
abbreviation (input) TYPE_FLOAT32 :: byte where "TYPE_FLOAT32 \<equiv> 0x14"
abbreviation (input) TYPE_FLOAT64 :: byte where "TYPE_FLOAT64 \<equiv> 0x15"
abbreviation (input) TYPE_NAN :: byte where "TYPE_NAN \<equiv> 0x16"
abbreviation (input) TYPE_INFINITY :: byte where "TYPE_INFINITY \<equiv> 0x17"
abbreviation (input) TYPE_NEG_INFINITY :: byte where "TYPE_NEG_INFINITY \<equiv> 0x18"
abbreviation (input) TYPE_NEG_ZERO :: byte where "TYPE_NEG_ZERO \<equiv> 0x19"
abbreviation (input) TYPE_VARINT :: byte where "TYPE_VARINT \<equiv> 0x1A"
abbreviation (input) TYPE_BIGINT_POS_SMALL :: byte where "TYPE_BIGINT_POS_SMALL \<equiv> 0x20"
abbreviation (input) TYPE_BIGINT_NEG_SMALL :: byte where "TYPE_BIGINT_NEG_SMALL \<equiv> 0x21"
abbreviation (input) TYPE_BIGINT_POS_LARGE :: byte where "TYPE_BIGINT_POS_LARGE \<equiv> 0x22"
abbreviation (input) TYPE_BIGINT_NEG_LARGE :: byte where "TYPE_BIGINT_NEG_LARGE \<equiv> 0x23"
abbreviation (input) TYPE_STRING_EMPTY :: byte where "TYPE_STRING_EMPTY \<equiv> 0x30"
abbreviation (input) TYPE_STRING_ASCII_TINY :: byte where "TYPE_STRING_ASCII_TINY \<equiv> 0x31"
abbreviation (input) TYPE_STRING_ASCII_SHORT :: byte where "TYPE_STRING_ASCII_SHORT \<equiv> 0x32"
abbreviation (input) TYPE_STRING_ASCII_LONG :: byte where "TYPE_STRING_ASCII_LONG \<equiv> 0x33"
abbreviation (input) TYPE_STRING_UTF8_TINY :: byte where "TYPE_STRING_UTF8_TINY \<equiv> 0x34"
abbreviation (input) TYPE_STRING_UTF8_SHORT :: byte where "TYPE_STRING_UTF8_SHORT \<equiv> 0x35"
abbreviation (input) TYPE_STRING_UTF8_LONG :: byte where "TYPE_STRING_UTF8_LONG \<equiv> 0x36"
abbreviation (input) TYPE_STRING_REF :: byte where "TYPE_STRING_REF \<equiv> 0x37"
abbreviation (input) TYPE_ARRAY_EMPTY :: byte where "TYPE_ARRAY_EMPTY \<equiv> 0x40"
abbreviation (input) TYPE_ARRAY_DENSE :: byte where "TYPE_ARRAY_DENSE \<equiv> 0x41"
abbreviation (input) TYPE_ARRAY_SPARSE :: byte where "TYPE_ARRAY_SPARSE \<equiv> 0x42"
abbreviation (input) TYPE_ARRAY_PACKED_I8 :: byte where "TYPE_ARRAY_PACKED_I8 \<equiv> 0x43"
abbreviation (input) TYPE_ARRAY_PACKED_I16 :: byte where "TYPE_ARRAY_PACKED_I16 \<equiv> 0x44"
abbreviation (input) TYPE_ARRAY_PACKED_I32 :: byte where "TYPE_ARRAY_PACKED_I32 \<equiv> 0x45"
abbreviation (input) TYPE_ARRAY_PACKED_F32 :: byte where "TYPE_ARRAY_PACKED_F32 \<equiv> 0x46"
abbreviation (input) TYPE_ARRAY_PACKED_F64 :: byte where "TYPE_ARRAY_PACKED_F64 \<equiv> 0x47"
abbreviation (input) TYPE_OBJECT_EMPTY :: byte where "TYPE_OBJECT_EMPTY \<equiv> 0x50"
abbreviation (input) TYPE_OBJECT_PLAIN :: byte where "TYPE_OBJECT_PLAIN \<equiv> 0x51"
abbreviation (input) TYPE_OBJECT_LITERAL :: byte where "TYPE_OBJECT_LITERAL \<equiv> 0x52"
abbreviation (input) TYPE_OBJECT_CONSTRUCTOR :: byte where "TYPE_OBJECT_CONSTRUCTOR \<equiv> 0x53"
abbreviation (input) TYPE_OBJECT_WITH_DESCRIPTORS :: byte where "TYPE_OBJECT_WITH_DESCRIPTORS \<equiv> 0x54"
abbreviation (input) TYPE_OBJECT_WITH_METHODS :: byte where "TYPE_OBJECT_WITH_METHODS \<equiv> 0x55"
abbreviation (input) TYPE_UINT8ARRAY :: byte where "TYPE_UINT8ARRAY \<equiv> 0x60"
abbreviation (input) TYPE_INT8ARRAY :: byte where "TYPE_INT8ARRAY \<equiv> 0x61"
abbreviation (input) TYPE_UINT8CLAMPEDARRAY :: byte where "TYPE_UINT8CLAMPEDARRAY \<equiv> 0x62"
abbreviation (input) TYPE_UINT16ARRAY :: byte where "TYPE_UINT16ARRAY \<equiv> 0x63"
abbreviation (input) TYPE_INT16ARRAY :: byte where "TYPE_INT16ARRAY \<equiv> 0x64"
abbreviation (input) TYPE_UINT32ARRAY :: byte where "TYPE_UINT32ARRAY \<equiv> 0x65"
abbreviation (input) TYPE_INT32ARRAY :: byte where "TYPE_INT32ARRAY \<equiv> 0x66"
abbreviation (input) TYPE_FLOAT32ARRAY :: byte where "TYPE_FLOAT32ARRAY \<equiv> 0x67"
abbreviation (input) TYPE_FLOAT64ARRAY :: byte where "TYPE_FLOAT64ARRAY \<equiv> 0x68"
abbreviation (input) TYPE_BIGINT64ARRAY :: byte where "TYPE_BIGINT64ARRAY \<equiv> 0x69"
abbreviation (input) TYPE_BIGUINT64ARRAY :: byte where "TYPE_BIGUINT64ARRAY \<equiv> 0x6A"
abbreviation (input) TYPE_DATAVIEW :: byte where "TYPE_DATAVIEW \<equiv> 0x6B"
abbreviation (input) TYPE_ARRAYBUFFER :: byte where "TYPE_ARRAYBUFFER \<equiv> 0x70"
abbreviation (input) TYPE_BUFFER_REF :: byte where "TYPE_BUFFER_REF \<equiv> 0x71"
abbreviation (input) TYPE_SHAREDARRAYBUFFER :: byte where "TYPE_SHAREDARRAYBUFFER \<equiv> 0x72"
abbreviation (input) TYPE_MAP :: byte where "TYPE_MAP \<equiv> 0x80"
abbreviation (input) TYPE_SET :: byte where "TYPE_SET \<equiv> 0x81"
abbreviation (input) TYPE_DATE :: byte where "TYPE_DATE \<equiv> 0x90"
abbreviation (input) TYPE_DATE_INVALID :: byte where "TYPE_DATE_INVALID \<equiv> 0x91"
abbreviation (input) TYPE_ERROR :: byte where "TYPE_ERROR \<equiv> 0xA0"
abbreviation (input) TYPE_EVAL_ERROR :: byte where "TYPE_EVAL_ERROR \<equiv> 0xA1"
abbreviation (input) TYPE_RANGE_ERROR :: byte where "TYPE_RANGE_ERROR \<equiv> 0xA2"
abbreviation (input) TYPE_REFERENCE_ERROR :: byte where "TYPE_REFERENCE_ERROR \<equiv> 0xA3"
abbreviation (input) TYPE_SYNTAX_ERROR :: byte where "TYPE_SYNTAX_ERROR \<equiv> 0xA4"
abbreviation (input) TYPE_TYPE_ERROR :: byte where "TYPE_TYPE_ERROR \<equiv> 0xA5"
abbreviation (input) TYPE_URI_ERROR :: byte where "TYPE_URI_ERROR \<equiv> 0xA6"
abbreviation (input) TYPE_AGGREGATE_ERROR :: byte where "TYPE_AGGREGATE_ERROR \<equiv> 0xA7"
abbreviation (input) TYPE_CUSTOM_ERROR :: byte where "TYPE_CUSTOM_ERROR \<equiv> 0xA8"
abbreviation (input) TYPE_REGEXP :: byte where "TYPE_REGEXP \<equiv> 0xB0"
abbreviation (input) TYPE_BLOB :: byte where "TYPE_BLOB \<equiv> 0xC0"
abbreviation (input) TYPE_FILE :: byte where "TYPE_FILE \<equiv> 0xC1"
abbreviation (input) TYPE_REFERENCE :: byte where "TYPE_REFERENCE \<equiv> 0xD0"
abbreviation (input) TYPE_CIRCULAR_REF :: byte where "TYPE_CIRCULAR_REF \<equiv> 0xD1"
abbreviation (input) TYPE_SYMBOL :: byte where "TYPE_SYMBOL \<equiv> 0xE0"
abbreviation (input) TYPE_SYMBOL_GLOBAL :: byte where "TYPE_SYMBOL_GLOBAL \<equiv> 0xE1"
abbreviation (input) TYPE_SYMBOL_WELLKNOWN :: byte where "TYPE_SYMBOL_WELLKNOWN \<equiv> 0xE2"
abbreviation (input) TYPE_SYMBOL_NO_DESC :: byte where "TYPE_SYMBOL_NO_DESC \<equiv> 0xE3"
abbreviation (input) TYPE_FUNCTION_PLACEHOLDER :: byte where "TYPE_FUNCTION_PLACEHOLDER \<equiv> 0xF0"

abbreviation (input) GROUP_PRIMITIVE :: byte where "GROUP_PRIMITIVE \<equiv> 0x00"
abbreviation (input) GROUP_NUMBER :: byte where "GROUP_NUMBER \<equiv> 0x10"
abbreviation (input) GROUP_BIGINT :: byte where "GROUP_BIGINT \<equiv> 0x20"
abbreviation (input) GROUP_STRING :: byte where "GROUP_STRING \<equiv> 0x30"
abbreviation (input) GROUP_ARRAY :: byte where "GROUP_ARRAY \<equiv> 0x40"
abbreviation (input) GROUP_OBJECT :: byte where "GROUP_OBJECT \<equiv> 0x50"
abbreviation (input) GROUP_TYPED :: byte where "GROUP_TYPED \<equiv> 0x60"
abbreviation (input) GROUP_BUFFER :: byte where "GROUP_BUFFER \<equiv> 0x70"
abbreviation (input) GROUP_COLLECTION :: byte where "GROUP_COLLECTION \<equiv> 0x80"
abbreviation (input) GROUP_DATE :: byte where "GROUP_DATE \<equiv> 0x90"
abbreviation (input) GROUP_ERROR :: byte where "GROUP_ERROR \<equiv> 0xA0"
abbreviation (input) GROUP_REGEX :: byte where "GROUP_REGEX \<equiv> 0xB0"
abbreviation (input) GROUP_BINARY :: byte where "GROUP_BINARY \<equiv> 0xC0"
abbreviation (input) GROUP_REFERENCE :: byte where "GROUP_REFERENCE \<equiv> 0xD0"
abbreviation (input) GROUP_SPECIAL :: byte where "GROUP_SPECIAL \<equiv> 0xE0"
abbreviation (input) GROUP_EXTENSION :: byte where "GROUP_EXTENSION \<equiv> 0xF0"

text \<open>The table \<open>BYTES_PER_ELEMENT\<close>: zero for a tag that is not in it.\<close>

definition BYTES_PER_ELEMENT :: "byte \<Rightarrow> nat" where
  "BYTES_PER_ELEMENT t =
     (if t \<in> {TYPE_UINT8ARRAY, TYPE_INT8ARRAY, TYPE_UINT8CLAMPEDARRAY, TYPE_ARRAY_PACKED_I8} then 1
      else if t \<in> {TYPE_UINT16ARRAY, TYPE_INT16ARRAY, TYPE_ARRAY_PACKED_I16} then 2
      else if t \<in> {TYPE_UINT32ARRAY, TYPE_INT32ARRAY, TYPE_FLOAT32ARRAY,
                    TYPE_ARRAY_PACKED_I32, TYPE_ARRAY_PACKED_F32} then 4
      else if t \<in> {TYPE_FLOAT64ARRAY, TYPE_BIGINT64ARRAY, TYPE_BIGUINT64ARRAY,
                    TYPE_ARRAY_PACKED_F64} then 8
      else 0)"

section \<open>Classifying numbers\<close>

definition b2i :: "bool \<Rightarrow> int" where
  "b2i b = (if b then 1 else 0)"

text \<open>
  \<open>UltraTypeDetector.detectNumber\<close>. The two tests on the bit pattern are written by
  what they decide: exponent all ones with a zero mantissa is an infinity, and the top bit
  is the sign.
\<close>

definition detectNumber :: "jsnum \<Rightarrow> byte" where
  "detectNumber v =
     (if v = NaN then TYPE_NAN
      else if v = PosInf \<or> v = NegInf then
        (if sign_bit v then TYPE_NEG_INFINITY else TYPE_INFINITY)
      else if num_eq v (Fin 0) \<and> sign_bit v then TYPE_NEG_ZERO
      else
        (let intValue = Fin (of_int (num_toInt32 v))
         in if num_eq v intValue then
              (let absValue = num_abs v;
                   typeIndex =
                     js_or (js_or (js_shl (b2i (num_le absValue (Fin 0x7F))) 0)
                                  (js_shl (b2i (num_le absValue (Fin 0x7FFF))) 1))
                           (js_shl (b2i (num_le absValue (Fin 0x7FFFFFFF))) 2);
                   types = [TYPE_VARINT, TYPE_INT8, TYPE_INT16, TYPE_INT32]
               in types ! nat (min typeIndex 3))
            else if fround_same v then TYPE_FLOAT32 else TYPE_FLOAT64))"

section \<open>SIMDProcessor: the numeric-array analyzer\<close>

record analysis =
  a_type :: byte
  a_elementSize :: nat

text \<open>The scan of \<open>analyzeNumericArray\<close>; the state is
  \<open>(isInteger, min, max, canBeFloat32)\<close>, the two flags as booleans.\<close>

fun analyze_scan :: "jsnum list \<Rightarrow> bool \<times> jsnum \<times> jsnum \<times> bool \<Rightarrow> bool \<times> jsnum \<times> jsnum \<times> bool" where
  "analyze_scan [] st = st"
| "analyze_scan (val # rest) (isInteger, mn, mx, canBeFloat32) =
     (let intVal = Fin (of_int (num_toInt32 val));
          isInteger' = (isInteger \<and> num_eq val intVal);
          mn' = num_min mn val;
          mx' = num_max mx val;
          canBeFloat32' = (if canBeFloat32 then fround_same val else canBeFloat32)
      in analyze_scan rest (isInteger', mn', mx', canBeFloat32'))"

definition analyzeNumericArray :: "jsnum list \<Rightarrow> analysis" where
  "analyzeNumericArray array =
     (let (isInteger, mn, mx, canBeFloat32) = analyze_scan array (True, PosInf, NegInf, True)
      in if isInteger then
           (let absMax = num_max (num_abs mn) (num_abs mx);
                typeIndex =
                  js_or (js_or (js_shl (b2i (num_le absMax (Fin 0x7F))) 0)
                               (js_shl (b2i (num_le absMax (Fin 0x7FFF))) 1))
                        (js_shl (b2i (num_le absMax (Fin 0x7FFFFFFF))) 2);
                types = [\<lparr>a_type = TYPE_ARRAY_PACKED_I32, a_elementSize = 4\<rparr>,
                         \<lparr>a_type = TYPE_ARRAY_PACKED_I8, a_elementSize = 1\<rparr>,
                         \<lparr>a_type = TYPE_ARRAY_PACKED_I16, a_elementSize = 2\<rparr>,
                         \<lparr>a_type = TYPE_ARRAY_PACKED_I32, a_elementSize = 4\<rparr>]
            in types ! nat (js_and typeIndex 3))
         else if canBeFloat32 then \<lparr>a_type = TYPE_ARRAY_PACKED_F32, a_elementSize = 4\<rparr>
         else \<lparr>a_type = TYPE_ARRAY_PACKED_F64, a_elementSize = 8\<rparr>)"

section \<open>UltraMemoryPool: floats, big integers, packed arrays and bulk data\<close>

definition writeF32 :: "jsnum \<Rightarrow> pool \<Rightarrow> pool result" where
  "writeF32 v = write_view 4 (le_bytes 4 (float_bits 24 8 v))"

definition writeF64 :: "jsnum \<Rightarrow> pool \<Rightarrow> pool result" where
  "writeF64 v = write_view 8 (le_bytes 8 (float_bits 53 11 v))"

definition writeBigInt64 :: "int \<Rightarrow> pool \<Rightarrow> pool result" where
  "writeBigInt64 v = write_view 8 (le_bytes 8 v)"

text \<open>The bytes one element of a packed array is stored as (\<open>view[i] = array[i]|0\<close>
  or \<open>view[i] = +array[i]\<close> on a typed view of the element type).\<close>

definition packed_element :: "byte \<Rightarrow> jsnum \<Rightarrow> byte list" where
  "packed_element elementType v =
     (if elementType = TYPE_ARRAY_PACKED_I8 then le_bytes 1 (num_toInt32 v)
      else if elementType = TYPE_ARRAY_PACKED_I16 then le_bytes 2 (num_toInt32 v)
      else if elementType = TYPE_ARRAY_PACKED_I32 then le_bytes 4 (num_toInt32 v)
      else if elementType = TYPE_ARRAY_PACKED_F32 then le_bytes 4 (float_bits 24 8 v)
      else le_bytes 8 (float_bits 53 11 v))"

text \<open>
  A typed view \<open>new XArray(this.buffer, this.pos, len)\<close> on the pool's buffer: the host
  throws unless the offset is a multiple of the element size and the elements fit.
  The stores through the view then write the elements one after the other.
\<close>

definition typed_view_set :: "int \<Rightarrow> int \<Rightarrow> byte list \<Rightarrow> pool \<Rightarrow> pool result" where
  "typed_view_set elementSize len bs p =
     (if pos p < 0 \<or> len < 0 \<or> pos p mod elementSize \<noteq> 0
         \<or> pos p + len * elementSize > psize p
      then Err RangeError
      else Ok (p\<lparr>u8 := store_bytes (pos p) bs (u8 p),
                 writes := rev (map (\<lambda>i. (pos p + int i * elementSize, elementSize))
                                    [0..<nat len]) @ writes p\<rparr>))"

definition writePackedArray :: "jsnum list \<Rightarrow> byte \<Rightarrow> pool \<Rightarrow> pool result" where
  "writePackedArray array elementType p0 =
     (let len = toInt32 (int (length array))
      in bind (writeVarint len p0) (\<lambda>p1.
         let elementSize = toInt32 (int (BYTES_PER_ELEMENT elementType))
         in if elementSize = 0 then Err (UnknownElementType elementType)
            else
              (let p2 = alignPos (min elementSize 8) p1
               in bind (ensure (len * elementSize) p2) (\<lambda>p3.
                  if elementType \<in> {TYPE_ARRAY_PACKED_I8, TYPE_ARRAY_PACKED_I16,
                        TYPE_ARRAY_PACKED_I32, TYPE_ARRAY_PACKED_F32, TYPE_ARRAY_PACKED_F64}
                  then
                    bind (typed_view_set elementSize len
                            (concat (map (packed_element elementType) array)) p3) (\<lambda>p4.
                    Ok (p4\<lparr>pos := toInt32 (pos p4 +
                          (if elementType = TYPE_ARRAY_PACKED_I8 then len
                           else if elementType = TYPE_ARRAY_PACKED_I16 then js_shl len 1
                           else if elementType = TYPE_ARRAY_PACKED_F64 then js_shl len 3
                           else js_shl len 2))\<rparr>))
                  else Err (UnsupportedPackedArrayType elementType)))))"

text \<open>\<open>this.u8.set(data, this.pos)\<close>: the host throws when the data does not fit.\<close>

definition u8_set :: "byte list \<Rightarrow> pool \<Rightarrow> pool result" where
  "u8_set bs p =
     (if pos p < 0 \<or> pos p + int (length bs) > psize p then Err RangeError
      else Ok (p\<lparr>u8 := store_bytes (pos p) bs (u8 p)\<rparr>))"

definition writeBulkAligned :: "byte list \<Rightarrow> int \<Rightarrow> pool \<Rightarrow> pool result" where
  "writeBulkAligned data elementSize p0 =
     (let alignment = min elementSize 8;
          p1 = alignPos alignment p0;
          totalBytes = int (length data)
      in bind (ensure totalBytes p1) (\<lambda>p2.
         bind (u8_set data p2) (\<lambda>p3.
         Ok (p3\<lparr>pos := toInt32 (pos p3 + totalBytes),
                 writes := (pos p3, alignment) # writes p3\<rparr>))))"

definition reset :: "pool \<Rightarrow> pool" where
  "reset p = p\<lparr>pos := 0, writes := []\<rparr>"

definition getResult :: "pool \<Rightarrow> byte list" where
  "getResult p = bytes_at (u8 p) 0 (nat (subarray_end (psize p) (pos p)))"

section \<open>Values\<close>

text \<open>
  A string is a sequence of UTF-16 code units. A value is a primitive, a symbol, a
  function or a reference to an object on the heap. A symbol carries its kind and the
  key or description it was made from (\<open>JUndefined\<close> for none); a property key is a
  value, \<open>JStr\<close> or \<open>JSymbol\<close> for every key the writer meets.
\<close>

type_synonym jsstring = "16 word list"

type_synonym addr = nat

datatype jstype =
  TUndefined | TBoolean | TNumber | TBigInt | TString | TSymbol | TFunction | TObject

datatype symkind = SymLocal | SymGlobal | SymWellKnown

text \<open>A function is known by its source text and name, or it is one of the two
  throwing stand-ins the reader makes, or the value of a source text the reader
  evaluated.\<close>

datatype func =
    UserFunction jsstring jsstring
  | NotSerialized
  | DeserializationFailed
  | Evaluated jsstring

datatype jsval =
    JNull
  | JUndefined
  | JBool bool
  | JNum jsnum
  | JBigInt int
  | JStr jsstring
  | JSymbol symkind jsval
  | JFunction func
  | JObj addr

fun typeof :: "jsval \<Rightarrow> jstype" where
  "typeof JNull = TObject"
| "typeof JUndefined = TUndefined"
| "typeof (JBool _) = TBoolean"
| "typeof (JNum _) = TNumber"
| "typeof (JBigInt _) = TBigInt"
| "typeof (JStr _) = TString"
| "typeof (JSymbol _ _) = TSymbol"
| "typeof (JFunction _) = TFunction"
| "typeof (JObj _) = TObject"

fun truthy :: "jsval \<Rightarrow> bool" where
  "truthy JNull = False"
| "truthy JUndefined = False"
| "truthy (JBool b) = b"
| "truthy (JNum n) = (n \<noteq> NaN \<and> n \<noteq> NegZero \<and> n \<noteq> Fin 0)"
| "truthy (JBigInt i) = (i \<noteq> 0)"
| "truthy (JStr s) = (s \<noteq> [])"
| "truthy _ = True"

text \<open>
  A property with its descriptor: the attributes, the accessor functions and the value
  (\<open>JUndefined\<close> where the descriptor has none).
\<close>

record property =
  enumerable :: bool
  writable :: bool
  configurable :: bool
  getter :: jsval
  setter :: jsval
  pvalue :: jsval

definition data_prop :: "jsval \<Rightarrow> property" where
  "data_prop v = \<lparr>enumerable = True, writable = True, configurable = True,
                  getter = JUndefined, setter = JUndefined, pvalue = v\<rparr>"

datatype proto = ProtoObject | ProtoNull | ProtoClass jsstring

text \<open>
  The objects of the heap. An array is its elements, \<open>None\<close> for a hole. An ordinary
  object has a prototype (the default one, none, or that of a named constructor) and its
  own properties in the order the host enumerates them. A typed array is its tag, the
  address of its buffer, its byte offset and its length in elements; a data view has a
  byte length instead. An error has the name of its constructor, its message, its stack
  and, for an aggregate, its inner errors.
\<close>

datatype hobj =
    HArray "jsval option list"
  | HObject proto "(jsval \<times> property) list"
  | HMap "(jsval \<times> jsval) list"
  | HSet "jsval list"
  | HArrayBuffer bool "byte list"
  | HTypedArray byte addr int int
  | HDataView addr int int
  | HDate jsnum
  | HRegExp jsval jsval
  | HError jsstring jsval jsval "jsval list option"
  | HBlob bool

type_synonym heap = "hobj list"

definition hget :: "heap \<Rightarrow> addr \<Rightarrow> hobj option" where
  "hget h a = (if a < length h then Some (h ! a) else None)"

definition halloc :: "hobj \<Rightarrow> heap \<Rightarrow> addr \<times> heap" where
  "halloc ob h = (length h, h @ [ob])"

definition hset :: "addr \<Rightarrow> hobj \<Rightarrow> heap \<Rightarrow> heap" where
  "hset a ob h = h[a := ob]"

text \<open>Strings of the source text, written in ASCII.\<close>

definition ascii :: "string \<Rightarrow> jsstring" where
  "ascii s = map (\<lambda>c. of_nat (of_char c)) s"

section \<open>TextEncoder and TextDecoder\<close>

text \<open>
  The host's UTF-8 encoder: a surrogate pair is one code point, a lone surrogate is
  replaced by U+FFFD.
\<close>

fun code_points :: "jsstring \<Rightarrow> nat list" where
  "code_points [] = []"
| "code_points [c] = [if 0xD800 \<le> unat c \<and> unat c \<le> 0xDFFF then 0xFFFD else unat c]"
| "code_points (c # d # rest) =
     (if 0xD800 \<le> unat c \<and> unat c \<le> 0xDBFF then
        (if 0xDC00 \<le> unat d \<and> unat d \<le> 0xDFFF
         then (0x10000 + (unat c - 0xD800) * 0x400 + (unat d - 0xDC00)) # code_points rest
         else 0xFFFD # code_points (d # rest))
      else if 0xDC00 \<le> unat c \<and> unat c \<le> 0xDFFF then 0xFFFD # code_points (d # rest)
      else unat c # code_points (d # rest))"

definition utf8_of_code_point :: "nat \<Rightarrow> byte list" where
  "utf8_of_code_point cp =
     (if cp < 0x80 then [of_nat cp]
      else if cp < 0x800 then [of_nat (0xC0 + cp div 0x40), of_nat (0x80 + cp mod 0x40)]
      else if cp < 0x10000 then
        [of_nat (0xE0 + cp div 0x1000), of_nat (0x80 + (cp div 0x40) mod 0x40),
         of_nat (0x80 + cp mod 0x40)]
      else
        [of_nat (0xF0 + cp div 0x40000), of_nat (0x80 + (cp div 0x1000) mod 0x40),
         of_nat (0x80 + (cp div 0x40) mod 0x40), of_nat (0x80 + cp mod 0x40)])"

definition utf8_encode :: "jsstring \<Rightarrow> byte list" where
  "utf8_encode s = concat (map utf8_of_code_point (code_points s))"

text \<open>
  The host's UTF-8 decoder, with replacement: the state is the code point so far, the
  continuation bytes seen and needed, and the bounds for the next byte. A byte that
  cannot continue a sequence ends it with U+FFFD and is read again as a first byte.
  A byte order mark at the start is dropped.
\<close>

type_synonym utf8_state = "nat \<times> nat \<times> nat \<times> nat \<times> nat"

definition utf8_initial :: utf8_state where
  "utf8_initial = (0, 0, 0, 0x80, 0xBF)"

definition utf8_lead :: "nat \<Rightarrow> nat list \<times> utf8_state" where
  "utf8_lead x =
     (if x \<le> 0x7F then ([x], utf8_initial)
      else if 0xC2 \<le> x \<and> x \<le> 0xDF then ([], (x mod 0x20, 0, 1, 0x80, 0xBF))
      else if 0xE0 \<le> x \<and> x \<le> 0xEF then
        ([], (x mod 0x10, 0, 2, if x = 0xE0 then 0xA0 else 0x80, if x = 0xED then 0x9F else 0xBF))
      else if 0xF0 \<le> x \<and> x \<le> 0xF4 then
        ([], (x mod 0x08, 0, 3, if x = 0xF0 then 0x90 else 0x80, if x = 0xF4 then 0x8F else 0xBF))
      else ([0xFFFD], utf8_initial))"

fun utf8_decode_from :: "utf8_state \<Rightarrow> byte list \<Rightarrow> nat list" where
  "utf8_decode_from (cp, seen, needed, lo, hi) [] = (if needed \<noteq> 0 then [0xFFFD] else [])"
| "utf8_decode_from (cp, seen, needed, lo, hi) (b # bs) =
     (let x = unat b
      in if needed = 0 then
           (let (out, st) = utf8_lead x in out @ utf8_decode_from st bs)
         else if x < lo \<or> hi < x then
           (let (out, st) = utf8_lead x in 0xFFFD # out @ utf8_decode_from st bs)
         else
           (let cp' = cp * 0x40 + x mod 0x40
            in if seen + 1 \<noteq> needed
               then utf8_decode_from (cp', seen + 1, needed, 0x80, 0xBF) bs
               else cp' # utf8_decode_from utf8_initial bs))"

definition utf16_of_code_point :: "nat \<Rightarrow> jsstring" where
  "utf16_of_code_point cp =
     (if cp < 0x10000 then [of_nat cp]
      else [of_nat (0xD800 + (cp - 0x10000) div 0x400), of_nat (0xDC00 + (cp - 0x10000) mod 0x400)])"

definition utf8_decode :: "byte list \<Rightarrow> jsstring" where
  "utf8_decode bs =
     (let bs' = (if take 3 bs = [0xEF, 0xBB, 0xBF] then drop 3 bs else bs)
      in concat (map utf16_of_code_point (utf8_decode_from utf8_initial bs')))"


section \<open>UltraTypeDetector\<close>

text \<open>\<open>array[i]\<close>: a hole or an index past the end reads as \<open>undefined\<close>.\<close>

definition array_get :: "jsval option list \<Rightarrow> nat \<Rightarrow> jsval" where
  "array_get arr i = (if i < length arr then (case arr ! i of Some v \<Rightarrow> v | None \<Rightarrow> JUndefined)
                      else JUndefined)"

text \<open>\<open>SIMDProcessor.canOptimize\<close>: the sampling loop starts at the interval and
  steps by it.\<close>

function canOptimize_loop :: "jsval option list \<Rightarrow> jstype \<Rightarrow> nat \<Rightarrow> bool" where
  "canOptimize_loop arr firstType i =
     (let len = length arr;
          sampleInterval = max 1 (toInt32 (js_ushr (int len) 5))
      in if i < len then
           (if typeof (array_get arr i) \<noteq> firstType then False
            else canOptimize_loop arr firstType (i + nat sampleInterval))
         else True)"
  by pat_completeness auto
termination
  by (relation "measure (\<lambda>(arr, t, i). length arr - i)") auto

definition canOptimize :: "jsval option list \<Rightarrow> bool" where
  "canOptimize arr =
     (let len = int (length arr);
          isGoodSize = (len \<ge> 8 \<and> (js_and len (len - 1) = 0 \<or> len \<ge> 16))
      in if \<not> isGoodSize then False
         else
           (let firstType = typeof (array_get arr 0)
            in if firstType \<noteq> TNumber then False
               else canOptimize_loop arr firstType
                      (nat (max 1 (toInt32 (js_ushr len 5))))))"

text \<open>
  The conversion of an array element to a number (\<open>val|0\<close>, \<open>Math.min(min, val)\<close>,
  \<open>Math.fround(val)\<close>, \<open>+val\<close>): the host refuses a big integer or a symbol; the
  conversion of a string, a function or an object is not followed.
\<close>

fun to_number :: "jsval \<Rightarrow> jsnum result" where
  "to_number (JNum n) = Ok n"
| "to_number JUndefined = Ok NaN"
| "to_number JNull = Ok (Fin 0)"
| "to_number (JBool b) = Ok (Fin (if b then 1 else 0))"
| "to_number (JBigInt _) = Err TypeError"
| "to_number (JSymbol _ _) = Err TypeError"
| "to_number _ = Err Unmodelled"

fun to_numbers :: "jsval list \<Rightarrow> jsnum list result" where
  "to_numbers [] = Ok []"
| "to_numbers (v # vs) = bind (to_number v) (\<lambda>n. bind (to_numbers vs) (\<lambda>ns. Ok (n # ns)))"

definition detectBigInt :: "int \<Rightarrow> byte" where
  "detectBigInt v =
     (let isNegative = v < 0;
          absValue = (if isNegative then - v else v);
          fits64Bit = absValue \<le> 0x7FFFFFFFFFFFFFFF
      in if fits64Bit then (if isNegative then TYPE_BIGINT_NEG_SMALL else TYPE_BIGINT_POS_SMALL)
         else (if isNegative then TYPE_BIGINT_NEG_LARGE else TYPE_BIGINT_POS_LARGE))"

definition detectString :: "jsstring \<Rightarrow> byte" where
  "detectString v =
     (let len = length v
      in if len = 0 then TYPE_STRING_EMPTY
         else if list_all (\<lambda>c. c \<le> 0x7F) v then
           (if len < 16 then TYPE_STRING_ASCII_TINY
            else if len < 256 then TYPE_STRING_ASCII_SHORT
            else TYPE_STRING_ASCII_LONG)
         else
           (let byteLength = length (utf8_encode v)
            in if byteLength < 16 then TYPE_STRING_UTF8_TINY
               else if byteLength < 256 then TYPE_STRING_UTF8_SHORT
               else TYPE_STRING_UTF8_LONG))"

definition wellKnownNames :: "jsstring list" where
  "wellKnownNames = map ascii
     [''asyncIterator'', ''hasInstance'', ''isConcatSpreadable'', ''iterator'',
      ''match'', ''matchAll'', ''replace'', ''search'', ''species'', ''split'',
      ''toPrimitive'', ''toStringTag'', ''unscopables'']"

definition detectSymbol :: "symkind \<Rightarrow> jsval \<Rightarrow> byte" where
  "detectSymbol kind description =
     (if kind = SymGlobal then TYPE_SYMBOL_GLOBAL
      else if kind = SymWellKnown then TYPE_SYMBOL_WELLKNOWN
      else if description = JUndefined then TYPE_SYMBOL_NO_DESC
      else TYPE_SYMBOL)"

text \<open>\<open>detectArray\<close>; the analyzer is reached with every element converted to a
  number.\<close>

definition detectArray :: "jsval option list \<Rightarrow> byte result" where
  "detectArray arr =
     (let len = length arr
      in if len = 0 then Ok TYPE_ARRAY_EMPTY
         else
           (let filledCount = int (length (filter (\<lambda>e. e \<noteq> None) arr));
                hasHoles = (\<exists>e \<in> set arr. e = None);
                sparsityThreshold = js_ushr (int len * 3) 2
            in if hasHoles \<or> filledCount < sparsityThreshold then Ok TYPE_ARRAY_SPARSE
               else if canOptimize arr then
                 bind (to_numbers (map (array_get arr) [0..<len])) (\<lambda>ns.
                 Ok (a_type (analyzeNumericArray ns)))
               else Ok TYPE_ARRAY_DENSE))"

definition is_symbol_key :: "jsval \<Rightarrow> bool" where
  "is_symbol_key k = (typeof k = TSymbol)"

text \<open>\<open>[...ownKeys, ...ownSymbols]\<close>: the string keys, then the symbols.\<close>

definition allKeys :: "(jsval \<times> property) list \<Rightarrow> (jsval \<times> property) list" where
  "allKeys props = filter (\<lambda>kp. \<not> is_symbol_key (fst kp)) props @
                   filter (\<lambda>kp. is_symbol_key (fst kp)) props"

text \<open>The loop of \<open>classifyObject\<close> over the descriptors; it stops at the first
  accessor. The state is \<open>(hasComplexDescriptors, hasMethods)\<close>.\<close>

fun classify_scan :: "(jsval \<times> property) list \<Rightarrow> bool \<times> bool \<Rightarrow> bool \<times> bool" where
  "classify_scan [] st = st"
| "classify_scan ((key, d) # rest) (hasComplexDescriptors, hasMethods) =
     (if truthy (getter d) \<or> truthy (setter d) then (True, hasMethods)
      else
        (let hasMethods' = (hasMethods \<or> typeof (pvalue d) = TFunction);
             hasComplexDescriptors' =
               (hasComplexDescriptors \<or> \<not> enumerable d \<or> \<not> writable d \<or> \<not> configurable d)
         in classify_scan rest (hasComplexDescriptors', hasMethods')))"

definition classifyObject :: "proto \<Rightarrow> (jsval \<times> property) list \<Rightarrow> byte" where
  "classifyObject pr props =
     (let isPlainObject = (pr = ProtoObject \<or> pr = ProtoNull)
      in if \<not> isPlainObject then TYPE_OBJECT_CONSTRUCTOR
         else if allKeys props = [] then TYPE_OBJECT_EMPTY
         else
           (let (hasComplexDescriptors, hasMethods) = classify_scan (allKeys props) (False, False)
            in if hasComplexDescriptors then TYPE_OBJECT_WITH_DESCRIPTORS
               else if hasMethods then TYPE_OBJECT_WITH_METHODS
               else TYPE_OBJECT_LITERAL))"

definition errorTypeMap :: "(jsstring \<times> byte) list" where
  "errorTypeMap =
     [(ascii ''Error'', TYPE_ERROR), (ascii ''EvalError'', TYPE_EVAL_ERROR),
      (ascii ''RangeError'', TYPE_RANGE_ERROR), (ascii ''ReferenceError'', TYPE_REFERENCE_ERROR),
      (ascii ''SyntaxError'', TYPE_SYNTAX_ERROR), (ascii ''TypeError'', TYPE_TYPE_ERROR),
      (ascii ''URIError'', TYPE_URI_ERROR), (ascii ''AggregateError'', TYPE_AGGREGATE_ERROR)]"

definition detectErrorType :: "jsstring \<Rightarrow> byte" where
  "detectErrorType name = (case map_of errorTypeMap name of Some t \<Rightarrow> t | None \<Rightarrow> TYPE_CUSTOM_ERROR)"

text \<open>\<open>detectObject\<close>: the lookup of the constructor, then the tests in the order
  of the source. An address with no object behind it does not occur in a heap the
  program can be given; it is classified as \<open>null\<close> like the first test of the source.\<close>

definition detectObject :: "heap \<Rightarrow> addr \<Rightarrow> byte result" where
  "detectObject h a =
     (case hget h a of
        None \<Rightarrow> Ok TYPE_NULL
      | Some (HDate t) \<Rightarrow> Ok (if num_eq t t then TYPE_DATE else TYPE_DATE_INVALID)
      | Some (HRegExp _ _) \<Rightarrow> Ok TYPE_REGEXP
      | Some (HMap _) \<Rightarrow> Ok TYPE_MAP
      | Some (HSet _) \<Rightarrow> Ok TYPE_SET
      | Some (HArrayBuffer shared _) \<Rightarrow> Ok (if shared then TYPE_SHAREDARRAYBUFFER else TYPE_ARRAYBUFFER)
      | Some (HDataView _ _ _) \<Rightarrow> Ok TYPE_DATAVIEW
      | Some (HTypedArray t _ _ _) \<Rightarrow> Ok t
      | Some (HArray arr) \<Rightarrow> detectArray arr
      | Some (HError name _ _ _) \<Rightarrow> Ok (detectErrorType name)
      | Some (HBlob isFile) \<Rightarrow> Ok (if isFile then TYPE_FILE else TYPE_BLOB)
      | Some (HObject pr props) \<Rightarrow> Ok (classifyObject pr props))"

definition detect :: "heap \<Rightarrow> jsval \<Rightarrow> byte result" where
  "detect h v =
     (case v of
        JNull \<Rightarrow> Ok TYPE_NULL
      | JUndefined \<Rightarrow> Ok TYPE_UNDEFINED
      | JBool b \<Rightarrow> Ok (if b then TYPE_TRUE else TYPE_FALSE)
      | JNum n \<Rightarrow> Ok (detectNumber n)
      | JBigInt i \<Rightarrow> Ok (detectBigInt i)
      | JStr s \<Rightarrow> Ok (detectString s)
      | JSymbol kind d \<Rightarrow> Ok (detectSymbol kind d)
      | JObj a \<Rightarrow> detectObject h a
      | JFunction _ \<Rightarrow> Ok TYPE_UNDEFINED)"


section \<open>TurboSerial: the instance\<close>

record options =
  deduplication :: bool
  shareArrayBuffers :: bool
  simdOptimization :: bool
  detectCircular :: bool
  serializeFunctions :: bool
  preservePropertyDescriptors :: bool
  memoryPoolSize :: int

definition default_options :: options where
  "default_options =
     \<lparr>deduplication = True, shareArrayBuffers = True, simdOptimization = True,
      detectCircular = True, serializeFunctions = False,
      preservePropertyDescriptors = True, memoryPoolSize = 65536\<rparr>"

text \<open>
  The fields of a \<open>TurboSerial\<close> instance, and the heap of the host. The three
  \<open>Map\<close>s of the writer are association lists, an identifier being the size of the map
  when the key was added; \<open>circularRefs\<close> is a set. The reader's fields are the input,
  its cursor and the three tables.
\<close>

record codec =
  opts :: options
  heap :: heap
  pool :: pool
  refs :: "(addr \<times> int) list"
  circularRefs :: "addr list"
  strings :: "(jsstring \<times> int) list"
  buffers :: "(addr \<times> int) list"
  buffer :: "byte list"
  rpos :: nat
  deserializeRefs :: "jsval list"
  deserializeStrings :: "jsval list"
  deserializeBuffers :: "jsval list"

definition new_codec :: "options \<Rightarrow> heap \<Rightarrow> codec" where
  "new_codec os h =
     \<lparr>opts = os, heap = h, pool = new_pool (memoryPoolSize os), refs = [], circularRefs = [],
      strings = [], buffers = [], buffer = [], rpos = 0, deserializeRefs = [],
      deserializeStrings = [], deserializeBuffers = []\<rparr>"

subsection \<open>Statements\<close>

text \<open>A method of the instance takes the instance and returns a value and the
  instance after it, or throws.\<close>

type_synonym 'a meth = "codec \<Rightarrow> ('a \<times> codec) result"

definition sreturn :: "'a \<Rightarrow> 'a meth" where
  "sreturn x s = Ok (x, s)"

definition sthrow :: "error \<Rightarrow> 'a meth" where
  "sthrow e s = Err e"

definition sbind :: "'a meth \<Rightarrow> ('a \<Rightarrow> 'b meth) \<Rightarrow> 'b meth" where
  "sbind m f s = (case m s of Ok (x, s') \<Rightarrow> f x s' | Err e \<Rightarrow> Err e | OutOfFuel \<Rightarrow> OutOfFuel)"

definition sthen :: "unit meth \<Rightarrow> 'b meth \<Rightarrow> 'b meth" where
  "sthen m n = sbind m (\<lambda>_. n)"

definition sget :: "(codec \<Rightarrow> 'a) \<Rightarrow> 'a meth" where
  "sget f s = Ok (f s, s)"

definition smodify :: "(codec \<Rightarrow> codec) \<Rightarrow> unit meth" where
  "smodify f s = Ok ((), f s)"

definition slift :: "'a result \<Rightarrow> 'a meth" where
  "slift r s = (case r of Ok x \<Rightarrow> Ok (x, s) | Err e \<Rightarrow> Err e | OutOfFuel \<Rightarrow> OutOfFuel)"

text \<open>A \<open>for\<close> loop over the elements of a list.\<close>

fun sforeach :: "'a list \<Rightarrow> ('a \<Rightarrow> unit meth) \<Rightarrow> unit meth" where
  "sforeach [] f = sreturn ()"
| "sforeach (x # xs) f = sthen (f x) (sforeach xs f)"

text \<open>A call of a method of the pool.\<close>

definition on_pool :: "(pool \<Rightarrow> pool result) \<Rightarrow> unit meth" where
  "on_pool f s = (case f (pool s) of Ok p \<Rightarrow> Ok ((), s\<lparr>pool := p\<rparr>)
                  | Err e \<Rightarrow> Err e | OutOfFuel \<Rightarrow> OutOfFuel)"

subsection \<open>Reading properties\<close>

text \<open>
  A call of a function: the two stand-ins of the reader throw; a call of any other
  function is not followed. \<open>obj[key]\<close> on a property returns its value or calls its
  getter.
\<close>

fun call_function :: "jsval \<Rightarrow> jsval result" where
  "call_function (JFunction NotSerialized) = Err FunctionNotSerialized"
| "call_function (JFunction DeserializationFailed) = Err FunctionDeserializationFailed"
| "call_function (JFunction _) = Err Unmodelled"
| "call_function _ = Err TypeError"

definition is_accessor :: "property \<Rightarrow> bool" where
  "is_accessor d = (getter d \<noteq> JUndefined \<or> setter d \<noteq> JUndefined)"

definition property_read :: "property \<Rightarrow> jsval result" where
  "property_read d =
     (if is_accessor d then (if getter d = JUndefined then Ok JUndefined else call_function (getter d))
      else Ok (pvalue d))"

text \<open>\<open>Object.keys\<close>: the own enumerable properties with string keys.\<close>

definition object_keys :: "(jsval \<times> property) list \<Rightarrow> (jsval \<times> property) list" where
  "object_keys props = filter (\<lambda>kp. \<not> is_symbol_key (fst kp) \<and> enumerable (snd kp)) props"

definition key_string :: "jsval \<Rightarrow> jsstring" where
  "key_string k = (case k of JStr s \<Rightarrow> s | _ \<Rightarrow> [])"

text \<open>The test of the \<open>filter\<close> callbacks: \<open>typeof obj[key] !== 'function' ||
  serializeFunctions\<close>, \<open>false\<close> when the read throws.\<close>

definition serializable_key :: "bool \<Rightarrow> property \<Rightarrow> bool result" where
  "serializable_key sf d =
     (case property_read d of
        Ok v \<Rightarrow> Ok (typeof v \<noteq> TFunction \<or> sf)
      | Err Unmodelled \<Rightarrow> Err Unmodelled
      | Err _ \<Rightarrow> Ok False
      | OutOfFuel \<Rightarrow> OutOfFuel)"

fun filter_keys :: "('a \<Rightarrow> bool result) \<Rightarrow> 'a list \<Rightarrow> 'a list result" where
  "filter_keys t [] = Ok []"
| "filter_keys t (x # xs) =
     bind (t x) (\<lambda>b. bind (filter_keys t xs) (\<lambda>r. Ok (if b then x # r else r)))"

section \<open>TurboSerial: the writer\<close>

subsection \<open>detectCircularReferences\<close>

text \<open>
  The walk before the main walk. \<open>visited\<close> holds the objects on the current path (the
  source removes an object again when it leaves it); the result is \<open>circularRefs\<close>.
  The recursion is as deep as the path, bounded by the first argument.
  A \<open>for\<dots>in\<close> loop visits the enumerable string keys and calls
  \<open>value.hasOwnProperty\<close>, which an object without a prototype does not have; a getter
  that throws is skipped.
\<close>

fun dcr_children :: "(jsval \<Rightarrow> addr list \<Rightarrow> addr list result) \<Rightarrow> jsval list \<Rightarrow> addr list
    \<Rightarrow> addr list result" where
  "dcr_children rec [] circ = Ok circ"
| "dcr_children rec (v # vs) circ = bind (rec v circ) (dcr_children rec vs)"

fun dcr_properties :: "(jsval \<Rightarrow> addr list \<Rightarrow> addr list result) \<Rightarrow> property list \<Rightarrow> addr list
    \<Rightarrow> addr list result" where
  "dcr_properties rec [] circ = Ok circ"
| "dcr_properties rec (d # ds) circ =
     (case property_read d of
        Ok v \<Rightarrow> bind (rec v circ) (dcr_properties rec ds)
      | Err Unmodelled \<Rightarrow> Err Unmodelled
      | Err _ \<Rightarrow> dcr_properties rec ds circ
      | OutOfFuel \<Rightarrow> OutOfFuel)"

fun detectCircularReferences :: "nat \<Rightarrow> heap \<Rightarrow> addr list \<Rightarrow> jsval \<Rightarrow> addr list \<Rightarrow> addr list result" where
  "detectCircularReferences 0 h visited value circ = OutOfFuel"
| "detectCircularReferences (Suc n) h visited value circ =
     (case value of
        JObj a \<Rightarrow>
          if a \<in> set visited then Ok (List.insert a circ)
          else
            (let rec = detectCircularReferences n h (a # visited)
             in case hget h a of
                  Some (HArray arr) \<Rightarrow> dcr_children rec (List.map_filter id arr) circ
                | Some (HMap kvs) \<Rightarrow> dcr_children rec (concat (map (\<lambda>(k, v). [k, v]) kvs)) circ
                | Some (HSet items) \<Rightarrow> dcr_children rec items circ
                | Some (HObject pr props) \<Rightarrow>
                    (if object_keys props = [] then Ok circ
                     else if pr = ProtoNull then Err TypeError
                     else dcr_properties rec (map snd (object_keys props)) circ)
                | _ \<Rightarrow> Ok circ)
      | _ \<Rightarrow> Ok circ)"

subsection \<open>The payloads\<close>

definition writeNumber :: "jsnum \<Rightarrow> byte \<Rightarrow> unit meth" where
  "writeNumber v type =
     (if type = TYPE_INT8 then on_pool (writeU8 (num_toInt32 v))
      else if type = TYPE_INT16 then on_pool (writeI16 (num_toInt32 v))
      else if type = TYPE_INT32 then on_pool (writeI32 (num_toInt32 v))
      else if type = TYPE_UINT32 then on_pool (writeU32 (num_toUint32 v))
      else if type = TYPE_FLOAT32 then on_pool (writeF32 v)
      else if type = TYPE_FLOAT64 then on_pool (writeF64 v)
      else if type = TYPE_VARINT then
        (let isNegative = num_lt v (Fin 0)
         in sthen (on_pool (writeVarint (num_toUint32 (num_abs v))))
                  (on_pool (writeU8 (if isNegative then 1 else 0))))
      else sreturn ())"

text \<open>The bytes of \<open>writeLargeBigInt\<close>: pairs of hexadecimal digits from the end of the
  magnitude, that is its digits in base 256, least significant first.\<close>

function magnitude_bytes :: "int \<Rightarrow> int list" where
  "magnitude_bytes n = (if n < 256 then [n] else n mod 256 # magnitude_bytes (n div 256))"
  by pat_completeness auto
termination
  by (relation "measure (\<lambda>n. nat n)") auto

definition writeLargeBigInt :: "int \<Rightarrow> unit meth" where
  "writeLargeBigInt v =
     (let bytes = magnitude_bytes \<bar>v\<bar>
      in sthen (on_pool (writeVarint (int (length bytes))))
               (sforeach bytes (\<lambda>b. on_pool (writeU8 b))))"

definition writeBigInt :: "int \<Rightarrow> byte \<Rightarrow> unit meth" where
  "writeBigInt v type =
     (if type = TYPE_BIGINT_POS_SMALL \<or> type = TYPE_BIGINT_NEG_SMALL then on_pool (writeBigInt64 v)
      else if type = TYPE_BIGINT_POS_LARGE \<or> type = TYPE_BIGINT_NEG_LARGE then writeLargeBigInt v
      else sreturn ())"

definition writeString :: "jsstring \<Rightarrow> byte \<Rightarrow> unit meth" where
  "writeString v type =
     (let len = int (length v)
      in if type = TYPE_STRING_EMPTY then sreturn ()
         else if type = TYPE_STRING_ASCII_TINY \<or> type = TYPE_STRING_ASCII_SHORT then
           sthen (on_pool (writeU8 len)) (sforeach v (\<lambda>c. on_pool (writeU8 (uint c))))
         else if type = TYPE_STRING_ASCII_LONG then
           sthen (on_pool (writeVarint len)) (sforeach v (\<lambda>c. on_pool (writeU8 (uint c))))
         else if type = TYPE_STRING_UTF8_TINY \<or> type = TYPE_STRING_UTF8_SHORT
                 \<or> type = TYPE_STRING_UTF8_LONG then
           (let encoded = utf8_encode v
            in sthen (if type = TYPE_STRING_UTF8_TINY \<or> type = TYPE_STRING_UTF8_SHORT
                      then on_pool (writeU8 (int (length encoded)))
                      else on_pool (writeVarint (int (length encoded))))
                     (on_pool (writeBulkAligned encoded 1)))
         else sreturn ())"

text \<open>\<open>writeSparseArray\<close>: the present indices with their values, in ascending
  order.\<close>

definition sparse_entries :: "jsval option list \<Rightarrow> (nat \<times> jsval) list" where
  "sparse_entries arr =
     List.map_filter (\<lambda>i. case arr ! i of Some v \<Rightarrow> Some (i, v) | None \<Rightarrow> None) [0..<length arr]"

definition writeSparseArray :: "(jsval \<Rightarrow> unit meth) \<Rightarrow> jsval option list \<Rightarrow> unit meth" where
  "writeSparseArray rec arr =
     (let len = int (length arr);
          entries = sparse_entries arr;
          count = int (length entries)
      in sthen (on_pool (writeVarint len))
        (sthen (on_pool (writeVarint count))
               (sforeach entries (\<lambda>(i, v). sthen (on_pool (writeVarint (int i))) (rec v)))))"

definition writeArray :: "(jsval \<Rightarrow> unit meth) \<Rightarrow> jsval option list \<Rightarrow> byte \<Rightarrow> unit meth" where
  "writeArray rec arr type =
     (let len = length arr
      in if type = TYPE_ARRAY_EMPTY then sreturn ()
         else if type = TYPE_ARRAY_DENSE then
           sthen (on_pool (writeVarint (int len)))
                 (sforeach [0..<len] (\<lambda>i. rec (array_get arr i)))
         else if type = TYPE_ARRAY_SPARSE then writeSparseArray rec arr
         else if type \<in> {TYPE_ARRAY_PACKED_I8, TYPE_ARRAY_PACKED_I16, TYPE_ARRAY_PACKED_I32,
                          TYPE_ARRAY_PACKED_F32, TYPE_ARRAY_PACKED_F64} then
           sbind (slift (to_numbers (map (array_get arr) [0..<len]))) (\<lambda>ns.
           on_pool (writePackedArray ns type))
         else sreturn ())"

definition writeSimpleObject :: "(jsval \<Rightarrow> unit meth) \<Rightarrow> (jsval \<times> property) list \<Rightarrow> unit meth" where
  "writeSimpleObject rec props =
     sbind (sget (\<lambda>s. serializeFunctions (opts s))) (\<lambda>sf.
     sbind (slift (filter_keys (\<lambda>kp. serializable_key sf (snd kp)) (object_keys props)))
       (\<lambda>serializableKeys.
     let sorted = sort_key (\<lambda>kp. key_string (fst kp)) serializableKeys
     in sthen (on_pool (writeVarint (int (length sorted))))
              (sforeach sorted (\<lambda>(key, d).
                 sthen (rec key) (sbind (slift (property_read d)) rec)))))"

definition descriptor_flags :: "property \<Rightarrow> int" where
  "descriptor_flags d =
     (if enumerable d then 1 else 0) + (if writable d then 2 else 0)
     + (if configurable d then 4 else 0) + (if truthy (getter d) then 8 else 0)
     + (if truthy (setter d) then 16 else 0)"

definition writeObjectWithDescriptors :: "(jsval \<Rightarrow> unit meth) \<Rightarrow> (jsval \<times> property) list
    \<Rightarrow> unit meth" where
  "writeObjectWithDescriptors rec props =
     sbind (sget (\<lambda>s. serializeFunctions (opts s))) (\<lambda>sf.
     let serializableKeys =
           filter (\<lambda>(key, d). sf \<or> (\<not> truthy (getter d) \<and> \<not> truthy (setter d)
                                       \<and> typeof (pvalue d) \<noteq> TFunction))
                  (allKeys props)
     in sthen (on_pool (writeVarint (int (length serializableKeys))))
              (sforeach serializableKeys (\<lambda>(key, d).
                 sthen (rec key)
                (sthen (on_pool (writeU8 (descriptor_flags d)))
                       (if truthy (getter d) \<or> truthy (setter d) then
                          sthen (if truthy (getter d) then rec (getter d) else sreturn ())
                                (if truthy (setter d) then rec (setter d) else sreturn ())
                        else rec (pvalue d))))))"

text \<open>The source text and the name of a function (\<open>value.toString()\<close>,
  \<open>value.name\<close>).\<close>

fun function_source :: "func \<Rightarrow> jsstring" where
  "function_source (UserFunction src name) = src"
| "function_source NotSerialized = ascii ''function() { throw new Error('Function not serialized'); }''"
| "function_source DeserializationFailed =
     ascii ''function() { throw new Error('Function deserialization failed'); }''"
| "function_source (Evaluated src) = src"

fun function_name :: "func \<Rightarrow> jsstring" where
  "function_name (UserFunction src name) = name"
| "function_name _ = []"

text \<open>The entries \<open>[key, value, isFunction]\<close> that \<open>writeObjectWithMethods\<close>
  collects; a key whose read throws is skipped.\<close>

fun method_entries :: "bool \<Rightarrow> (jsval \<times> property) list \<Rightarrow> (jsval \<times> jsval \<times> bool) list result" where
  "method_entries sf [] = Ok []"
| "method_entries sf ((key, d) # rest) =
     (case property_read d of
        Ok v \<Rightarrow>
          bind (method_entries sf rest) (\<lambda>r.
            Ok ((if typeof v = TFunction then (if sf then (key, v, True) else (key, JNull, False))
                 else (key, v, False)) # r))
      | Err Unmodelled \<Rightarrow> Err Unmodelled
      | Err _ \<Rightarrow> method_entries sf rest
      | OutOfFuel \<Rightarrow> OutOfFuel)"

definition writeObjectWithMethods :: "(jsval \<Rightarrow> unit meth) \<Rightarrow> (jsval \<times> property) list
    \<Rightarrow> unit meth" where
  "writeObjectWithMethods rec props =
     sbind (sget (\<lambda>s. serializeFunctions (opts s))) (\<lambda>sf.
     sbind (slift (method_entries sf (object_keys props))) (\<lambda>serializableEntries.
     sthen (on_pool (writeVarint (int (length serializableEntries))))
           (sforeach serializableEntries (\<lambda>(key, v, isFunction).
              sthen (rec key)
             (sthen (on_pool (writeU8 (if isFunction then 1 else 0)))
                    (if isFunction \<and> sf then
                       (case v of
                          JFunction f \<Rightarrow>
                            sthen (rec (JStr (function_source f))) (rec (JStr (function_name f)))
                        | _ \<Rightarrow> sreturn ())
                     else if \<not> isFunction then rec v
                     else on_pool (writeU8 (uint TYPE_FUNCTION_PLACEHOLDER))))))))"

definition writeConstructorObject :: "(jsval \<Rightarrow> unit meth) \<Rightarrow> jsstring \<Rightarrow> (jsval \<times> property) list
    \<Rightarrow> unit meth" where
  "writeConstructorObject rec name props =
     sthen (rec (JStr name))
    (sbind (sget (\<lambda>s. serializeFunctions (opts s))) (\<lambda>sf.
     sbind (slift (filter_keys (\<lambda>kp. serializable_key sf (snd kp)) (object_keys props)))
       (\<lambda>serializableKeys.
     sthen (on_pool (writeVarint (int (length serializableKeys))))
           (sforeach serializableKeys (\<lambda>(key, d).
              sthen (rec key) (sbind (slift (property_read d)) rec))))))"

definition writeObject :: "(jsval \<Rightarrow> unit meth) \<Rightarrow> proto \<Rightarrow> (jsval \<times> property) list \<Rightarrow> byte
    \<Rightarrow> unit meth" where
  "writeObject rec pr props type =
     (if type = TYPE_OBJECT_EMPTY then sreturn ()
      else if type = TYPE_OBJECT_LITERAL \<or> type = TYPE_OBJECT_PLAIN then writeSimpleObject rec props
      else if type = TYPE_OBJECT_WITH_DESCRIPTORS then writeObjectWithDescriptors rec props
      else if type = TYPE_OBJECT_WITH_METHODS then writeObjectWithMethods rec props
      else if type = TYPE_OBJECT_CONSTRUCTOR then
        writeConstructorObject rec (case pr of ProtoClass name \<Rightarrow> name | _ \<Rightarrow> []) props
      else sreturn ())"

text \<open>The bytes of a buffer, and a view \<open>new Uint8Array(buffer, byteOffset, length)\<close>
  on them, which the host refuses when it does not fit.\<close>

definition buffer_bytes :: "heap \<Rightarrow> addr \<Rightarrow> byte list" where
  "buffer_bytes h a = (case hget h a of Some (HArrayBuffer _ bs) \<Rightarrow> bs | _ \<Rightarrow> [])"

definition byte_view :: "byte list \<Rightarrow> int \<Rightarrow> int \<Rightarrow> byte list result" where
  "byte_view bs byteOffset len =
     (if byteOffset < 0 \<or> len < 0 \<or> byteOffset + len > int (length bs) then Err RangeError
      else Ok (take (nat len) (drop (nat byteOffset) bs)))"

fun chunks8 :: "nat \<Rightarrow> byte list \<Rightarrow> byte list list" where
  "chunks8 0 bs = []"
| "chunks8 (Suc n) bs = take 8 bs # chunks8 n (drop 8 bs)"

definition writeTypedArray :: "addr \<Rightarrow> int \<Rightarrow> int \<Rightarrow> byte \<Rightarrow> unit meth" where
  "writeTypedArray buf byteOffset len type =
     sbind (sget (\<lambda>s. (shareArrayBuffers (opts s), map_of (buffers s) buf))) (\<lambda>(share, bufferId).
     if share \<and> bufferId \<noteq> None then
       sthen (on_pool (writeU8 1))
      (sthen (on_pool (writeVarint (the bufferId)))
      (sthen (on_pool (writeVarint byteOffset))
             (on_pool (writeVarint len))))
     else
       sthen (if share then smodify (\<lambda>s. s\<lparr>buffers := buffers s @ [(buf, int (length (buffers s)))]\<rparr>)
              else sreturn ())
      (sthen (on_pool (writeU8 0))
      (sthen (on_pool (writeVarint byteOffset))
      (sthen (on_pool (writeVarint len))
      (let elementSize = (if BYTES_PER_ELEMENT type = 0 then 1 else int (BYTES_PER_ELEMENT type));
           totalBytes = len * elementSize
       in sbind (sget (\<lambda>s. buffer_bytes (heap s) buf)) (\<lambda>bs.
          sbind (slift (byte_view bs byteOffset totalBytes)) (\<lambda>sourceData.
          if type = TYPE_BIGINT64ARRAY \<or> type = TYPE_BIGUINT64ARRAY then
            sforeach (chunks8 (nat len) sourceData) (\<lambda>c. on_pool (write_view 8 c))
          else on_pool (writeBulkAligned sourceData elementSize))))))))"

definition writeArrayBuffer :: "byte list \<Rightarrow> unit meth" where
  "writeArrayBuffer bytes =
     sthen (on_pool (writeVarint (int (length bytes)))) (on_pool (writeBulkAligned bytes 1))"

definition writeCollection :: "(jsval \<Rightarrow> unit meth) \<Rightarrow> hobj \<Rightarrow> byte \<Rightarrow> unit meth" where
  "writeCollection rec ob type =
     (case ob of
        HMap kvs \<Rightarrow>
          if type = TYPE_MAP then
            sthen (on_pool (writeVarint (int (length kvs))))
                  (sforeach kvs (\<lambda>(key, val). sthen (rec key) (rec val)))
          else sreturn ()
      | HSet items \<Rightarrow>
          if type = TYPE_SET then
            sthen (on_pool (writeVarint (int (length items)))) (sforeach items rec)
          else sreturn ()
      | _ \<Rightarrow> sreturn ())"

definition writeDate :: "jsnum \<Rightarrow> byte \<Rightarrow> unit meth" where
  "writeDate t type = (if type = TYPE_DATE then on_pool (writeF64 t) else sreturn ())"

definition or_empty :: "jsval \<Rightarrow> jsval" where
  "or_empty v = (if truthy v then v else JStr [])"

definition writeError :: "(jsval \<Rightarrow> unit meth) \<Rightarrow> jsval \<Rightarrow> jsval \<Rightarrow> jsval list option \<Rightarrow> byte
    \<Rightarrow> unit meth" where
  "writeError rec message stack errors type =
     sthen (rec (or_empty message))
    (sthen (rec (or_empty stack))
           (case errors of
              Some es \<Rightarrow>
                if type = TYPE_AGGREGATE_ERROR then
                  sthen (on_pool (writeVarint (int (length es)))) (sforeach es rec)
                else sreturn ()
            | None \<Rightarrow> sreturn ()))"

definition writeRegExp :: "(jsval \<Rightarrow> unit meth) \<Rightarrow> jsval \<Rightarrow> jsval \<Rightarrow> unit meth" where
  "writeRegExp rec source flags = sthen (rec source) (rec flags)"

definition writeBinary :: "unit meth" where
  "writeBinary = sthen (on_pool (writeVarint 0)) (on_pool (writeVarint 0))"

definition writeSpecial :: "(jsval \<Rightarrow> unit meth) \<Rightarrow> jsval \<Rightarrow> byte \<Rightarrow> unit meth" where
  "writeSpecial rec description type =
     (if type = TYPE_SYMBOL then rec description
      else if type = TYPE_SYMBOL_NO_DESC then sreturn ()
      else if type = TYPE_SYMBOL_GLOBAL then rec (or_empty description)
      else if type = TYPE_SYMBOL_WELLKNOWN then rec (or_empty description)
      else sreturn ())"

subsection \<open>writeValue\<close>

definition is_object :: "jsval \<Rightarrow> bool" where
  "is_object v = (typeof v = TObject \<and> v \<noteq> JNull)"

definition is_ArrayBuffer :: "heap \<Rightarrow> jsval \<Rightarrow> bool" where
  "is_ArrayBuffer h v =
     (case v of JObj a \<Rightarrow> (case hget h a of Some (HArrayBuffer shared _) \<Rightarrow> \<not> shared | _ \<Rightarrow> False)
      | _ \<Rightarrow> False)"

text \<open>
  The four early exits of \<open>writeValue\<close>, each returning the tag and identifier to
  write in place of the value, or nothing after registering the value.
\<close>

definition check_circular :: "jsval \<Rightarrow> (byte \<times> int) option meth" where
  "check_circular v s =
     (case v of
        JObj a \<Rightarrow>
          if detectCircular (opts s) \<and> a \<in> set (circularRefs s) then
            (case map_of (refs s) a of
               Some refId \<Rightarrow> Ok (Some (TYPE_CIRCULAR_REF, refId), s)
             | None \<Rightarrow> Ok (None, s\<lparr>refs := refs s @ [(a, int (length (refs s)))]\<rparr>))
          else Ok (None, s)
      | _ \<Rightarrow> Ok (None, s))"

definition check_reference :: "jsval \<Rightarrow> (byte \<times> int) option meth" where
  "check_reference v s =
     (case v of
        JObj a \<Rightarrow>
          if deduplication (opts s) \<and> a \<notin> set (circularRefs s) then
            (case map_of (refs s) a of
               Some refId \<Rightarrow> Ok (Some (TYPE_REFERENCE, refId), s)
             | None \<Rightarrow> Ok (None, s\<lparr>refs := refs s @ [(a, int (length (refs s)))]\<rparr>))
          else Ok (None, s)
      | _ \<Rightarrow> Ok (None, s))"

definition check_string :: "jsval \<Rightarrow> (byte \<times> int) option meth" where
  "check_string v s =
     (case v of
        JStr str \<Rightarrow>
          if deduplication (opts s) \<and> length str > 3 then
            (case map_of (strings s) str of
               Some stringId \<Rightarrow> Ok (Some (TYPE_STRING_REF, stringId), s)
             | None \<Rightarrow> Ok (None, s\<lparr>strings := strings s @ [(str, int (length (strings s)))]\<rparr>))
          else Ok (None, s)
      | _ \<Rightarrow> Ok (None, s))"

definition check_buffer :: "jsval \<Rightarrow> (byte \<times> int) option meth" where
  "check_buffer v s =
     (case v of
        JObj a \<Rightarrow>
          if shareArrayBuffers (opts s) \<and> is_ArrayBuffer (heap s) v then
            (case map_of (buffers s) a of
               Some bufferId \<Rightarrow> Ok (Some (TYPE_BUFFER_REF, bufferId), s)
             | None \<Rightarrow> Ok (None, s\<lparr>buffers := buffers s @ [(a, int (length (buffers s)))]\<rparr>))
          else Ok (None, s)
      | _ \<Rightarrow> Ok (None, s))"

definition write_ref :: "byte \<times> int \<Rightarrow> unit meth" where
  "write_ref r = sthen (on_pool (writeU8 (uint (fst r)))) (on_pool (writeVarint (snd r)))"

text \<open>The dispatch on the group of the tag.\<close>

definition write_payload :: "(jsval \<Rightarrow> unit meth) \<Rightarrow> jsval \<Rightarrow> byte \<Rightarrow> unit meth" where
  "write_payload rec v type =
     sbind (sget heap) (\<lambda>h.
     let group = type AND 0xF0;
         ob = (case v of JObj a \<Rightarrow> hget h a | _ \<Rightarrow> None)
     in if group = GROUP_NUMBER then (case v of JNum n \<Rightarrow> writeNumber n type | _ \<Rightarrow> sreturn ())
        else if group = GROUP_BIGINT then (case v of JBigInt i \<Rightarrow> writeBigInt i type | _ \<Rightarrow> sreturn ())
        else if group = GROUP_STRING then (case v of JStr str \<Rightarrow> writeString str type | _ \<Rightarrow> sreturn ())
        else if group = GROUP_ARRAY then
          (case ob of Some (HArray arr) \<Rightarrow> writeArray rec arr type | _ \<Rightarrow> sreturn ())
        else if group = GROUP_OBJECT then
          (case ob of Some (HObject pr props) \<Rightarrow> writeObject rec pr props type | _ \<Rightarrow> sreturn ())
        else if group = GROUP_TYPED then
          (case ob of
             Some (HTypedArray t buf byteOffset len) \<Rightarrow> writeTypedArray buf byteOffset len type
           | Some (HDataView buf byteOffset byteLength) \<Rightarrow> writeTypedArray buf byteOffset 0 type
           | _ \<Rightarrow> sreturn ())
        else if group = GROUP_BUFFER then
          (case ob of Some (HArrayBuffer shared bs) \<Rightarrow> writeArrayBuffer bs | _ \<Rightarrow> sreturn ())
        else if group = GROUP_COLLECTION then
          (case ob of Some c \<Rightarrow> writeCollection rec c type | _ \<Rightarrow> sreturn ())
        else if group = GROUP_DATE then
          (case ob of Some (HDate t) \<Rightarrow> writeDate t type | _ \<Rightarrow> sreturn ())
        else if group = GROUP_ERROR then
          (case ob of
             Some (HError name message stack errors) \<Rightarrow> writeError rec message stack errors type
           | _ \<Rightarrow> sreturn ())
        else if group = GROUP_REGEX then
          (case ob of Some (HRegExp source flags) \<Rightarrow> writeRegExp rec source flags | _ \<Rightarrow> sreturn ())
        else if group = GROUP_BINARY then writeBinary
        else if group = GROUP_SPECIAL then
          (case v of JSymbol kind d \<Rightarrow> writeSpecial rec d type | _ \<Rightarrow> sreturn ())
        else sreturn ())"

definition writeValue_body :: "(jsval \<Rightarrow> unit meth) \<Rightarrow> jsval \<Rightarrow> unit meth" where
  "writeValue_body rec v =
     sbind (check_circular v) (\<lambda>c.
     case c of Some r \<Rightarrow> write_ref r | None \<Rightarrow>
     sbind (check_reference v) (\<lambda>c.
     case c of Some r \<Rightarrow> write_ref r | None \<Rightarrow>
     sbind (check_string v) (\<lambda>c.
     case c of Some r \<Rightarrow> write_ref r | None \<Rightarrow>
     sbind (check_buffer v) (\<lambda>c.
     case c of Some r \<Rightarrow> write_ref r | None \<Rightarrow>
     sbind (sget heap) (\<lambda>h.
     sbind (slift (detect h v)) (\<lambda>type.
     sthen (on_pool (writeU8 (uint type)))
           (write_payload rec v type)))))))"

text \<open>\<open>writeValue\<close>, the recursion as deep as the first argument.\<close>

fun writeValue :: "nat \<Rightarrow> jsval \<Rightarrow> unit meth" where
  "writeValue 0 v s = OutOfFuel"
| "writeValue (Suc n) v s = writeValue_body (writeValue n) v s"

definition resetState :: "codec \<Rightarrow> codec" where
  "resetState s = s\<lparr>pool := reset (pool s), refs := [], circularRefs := [], strings := [],
                    buffers := []\<rparr>"

definition serialize :: "nat \<Rightarrow> jsval \<Rightarrow> byte list meth" where
  "serialize fuel v s0 =
     (sthen (smodify resetState)
     (sthen (on_pool (writeU32 0x54425235))
     (sthen (on_pool (writeU8 5))
     (sthen (\<lambda>s. if detectCircular (opts s) then
                    (case detectCircularReferences fuel (heap s) [] v (circularRefs s) of
                       Ok circ \<Rightarrow> Ok ((), s\<lparr>circularRefs := circ\<rparr>)
                     | Err e \<Rightarrow> Err e
                     | OutOfFuel \<Rightarrow> OutOfFuel)
                  else Ok ((), s))
     (sthen (writeValue fuel v)
            (sget (\<lambda>s. getResult (pool s)))))))) s0"


section \<open>TurboSerial: the reader\<close>

subsection \<open>The low-level reads\<close>

definition ensureBytes :: "nat \<Rightarrow> unit meth" where
  "ensureBytes count s = (if rpos s + count > length (buffer s) then Err BufferUnderflow else Ok ((), s))"

definition r_alignPos :: "int \<Rightarrow> unit meth" where
  "r_alignPos alignment s =
     (let mask = toInt32 (alignment - 1)
      in Ok ((), s\<lparr>rpos := nat (toUint32 (js_and (int (rpos s) + mask) (js_not mask)))\<rparr>))"

text \<open>The bytes \<open>count\<close> bytes long at the cursor, which moves past them.\<close>

definition take_bytes :: "nat \<Rightarrow> byte list meth" where
  "take_bytes count s = Ok (take count (drop (rpos s) (buffer s)), s\<lparr>rpos := rpos s + count\<rparr>)"

definition readU8 :: "int meth" where
  "readU8 = sthen (ensureBytes 1) (sbind (take_bytes 1) (\<lambda>bs. sreturn (uint (hd bs))))"

text \<open>The value of bytes in little-endian order, unsigned and in two's complement.\<close>

fun le_value :: "byte list \<Rightarrow> int" where
  "le_value [] = 0"
| "le_value (b # bs) = uint b + 256 * le_value bs"

definition le_signed :: "byte list \<Rightarrow> int" where
  "le_signed bs =
     (let v = le_value bs; m = 2 ^ (8 * length bs)
      in if 2 * v \<ge> m then v - m else v)"

text \<open>The common shape of the aligned reads: align, check, read through the
  \<open>DataView\<close>, advance.\<close>

definition read_view :: "nat \<Rightarrow> byte list meth" where
  "read_view k = sthen (r_alignPos (int k)) (sthen (ensureBytes k) (take_bytes k))"

definition readI16 :: "int meth" where
  "readI16 = sbind (read_view 2) (\<lambda>bs. sreturn (le_signed bs))"

definition readU16 :: "int meth" where
  "readU16 = sbind (read_view 2) (\<lambda>bs. sreturn (le_value bs))"

definition readI32 :: "int meth" where
  "readI32 = sbind (read_view 4) (\<lambda>bs. sreturn (le_signed bs))"

definition readU32 :: "int meth" where
  "readU32 = sbind (read_view 4) (\<lambda>bs. sreturn (le_value bs))"

definition readF32 :: "jsnum meth" where
  "readF32 = sbind (read_view 4) (\<lambda>bs. sreturn (bits_float 24 8 (le_value bs)))"

definition readF64 :: "jsnum meth" where
  "readF64 = sbind (read_view 8) (\<lambda>bs. sreturn (bits_float 53 11 (le_value bs)))"

definition readBigInt64 :: "int meth" where
  "readBigInt64 = sbind (read_view 8) (\<lambda>bs. sreturn (le_signed bs))"

text \<open>\<open>this.view.getInt8(this.pos++)\<close>: no check of the program; the host throws
  past the end.\<close>

definition readInt8 :: "int meth" where
  "readInt8 s =
     (if rpos s + 1 > length (buffer s) then Err RangeError
      else sbind (take_bytes 1) (\<lambda>bs. sreturn (le_signed bs)) s)"

text \<open>The do-while loop of \<open>readVarint\<close>, on the input, the cursor, the value so far
  and the shift.\<close>

function readVarint_loop :: "byte list \<Rightarrow> nat \<Rightarrow> int \<Rightarrow> nat \<Rightarrow> (int \<times> nat) result" where
  "readVarint_loop buf p v shift =
     (if p + 1 > length buf then Err BufferUnderflow
      else
        (let byte = uint (buf ! p);
             v' = js_or v (js_shl (js_and byte 0x7F) shift)
         in if js_and byte 0x80 \<noteq> 0 then readVarint_loop buf (p + 1) v' (shift + 7)
            else Ok (toUint32 v', p + 1)))"
  by pat_completeness auto
termination
  by (relation "measure (\<lambda>(buf, p, v, shift). length buf - p)") auto

definition readVarint :: "int meth" where
  "readVarint s =
     (case readVarint_loop (buffer s) (rpos s) 0 0 of
        Ok (v, p) \<Rightarrow> Ok (v, s\<lparr>rpos := p\<rparr>)
      | Err e \<Rightarrow> Err e
      | OutOfFuel \<Rightarrow> OutOfFuel)"

text \<open>A \<open>for\<close> loop that counts from \<open>i\<close>, \<open>k\<close> times.\<close>

fun scount :: "nat \<Rightarrow> nat \<Rightarrow> (nat \<Rightarrow> unit meth) \<Rightarrow> unit meth" where
  "scount 0 i body = sreturn ()"
| "scount (Suc k) i body = sthen (body i) (scount k (Suc i) body)"

text \<open>A loop that collects what its body returns, \<open>k\<close> times.\<close>

fun scollect :: "nat \<Rightarrow> 'a meth \<Rightarrow> 'a list meth" where
  "scollect 0 body = sreturn []"
| "scollect (Suc k) body = sbind body (\<lambda>x. sbind (scollect k body) (\<lambda>xs. sreturn (x # xs)))"

subsection \<open>Objects of the host\<close>

definition alloc :: "hobj \<Rightarrow> jsval meth" where
  "alloc ob s = (let (a, h) = halloc ob (heap s) in Ok (JObj a, s\<lparr>heap := h\<rparr>))"

text \<open>A change to the object a value refers to.\<close>

definition update_object :: "jsval \<Rightarrow> (hobj \<Rightarrow> hobj result) \<Rightarrow> unit meth" where
  "update_object v f s =
     (case v of
        JObj a \<Rightarrow>
          (case hget (heap s) a of
             Some ob \<Rightarrow> (case f ob of Ok ob' \<Rightarrow> Ok ((), s\<lparr>heap := hset a ob' (heap s)\<rparr>)
                         | Err e \<Rightarrow> Err e | OutOfFuel \<Rightarrow> OutOfFuel)
           | None \<Rightarrow> Err TypeError)
      | _ \<Rightarrow> Err TypeError)"

text \<open>
  \<open>array[i] = v\<close> and \<open>array.length = n\<close>. The greatest array index is
  \<open>2 ^ 32 - 2\<close>; an assignment at \<open>2 ^ 32 - 1\<close> makes a named property, which the
  arrays of the model do not have, and is dropped.
\<close>

definition array_set :: "int \<Rightarrow> jsval \<Rightarrow> hobj \<Rightarrow> hobj result" where
  "array_set index v ob =
     (case ob of
        HArray xs \<Rightarrow>
          (let i = nat index
           in Ok (HArray (if 4294967295 \<le> index then xs
                          else if i < length xs then xs[i := Some v]
                          else xs @ replicate (i - length xs) None @ [Some v])))
      | _ \<Rightarrow> Err TypeError)"

definition array_set_length :: "nat \<Rightarrow> hobj \<Rightarrow> hobj result" where
  "array_set_length n ob =
     (case ob of
        HArray xs \<Rightarrow> Ok (HArray (take n xs @ replicate (n - length xs) None))
      | _ \<Rightarrow> Err TypeError)"

definition array_push :: "jsval list \<Rightarrow> hobj \<Rightarrow> hobj result" where
  "array_push vs ob =
     (case ob of HArray xs \<Rightarrow> Ok (HArray (xs @ map Some vs)) | _ \<Rightarrow> Err TypeError)"

text \<open>
  \<open>obj[key] = v\<close> in strict mode on an object made by the reader: a new key makes a
  data property; an own data property is overwritten if writable; an own accessor has
  its setter called. The accessor \<open>__proto__\<close> that objects inherit is not modelled:
  that key is treated like any other.
\<close>

fun props_assign :: "jsval \<Rightarrow> jsval \<Rightarrow> (jsval \<times> property) list \<Rightarrow> (jsval \<times> property) list result" where
  "props_assign key v [] = Ok [(key, data_prop v)]"
| "props_assign key v ((k, d) # rest) =
     (if k = key then
        (if is_accessor d then
           (if setter d = JUndefined then Err TypeError
            else bind (call_function (setter d)) (\<lambda>_. Ok ((k, d) # rest)))
         else if writable d then Ok ((k, d\<lparr>pvalue := v\<rparr>) # rest)
         else Err TypeError)
      else bind (props_assign key v rest) (\<lambda>r. Ok ((k, d) # r)))"

definition object_assign :: "jsval \<Rightarrow> jsval \<Rightarrow> hobj \<Rightarrow> hobj result" where
  "object_assign key v ob =
     (case ob of
        HObject pr props \<Rightarrow> bind (props_assign key v props) (\<lambda>ps. Ok (HObject pr ps))
      | _ \<Rightarrow> Err TypeError)"

text \<open>
  \<open>Object.defineProperty\<close> with a data descriptor that gives all three attributes:
  a new key is added; an own configurable property is replaced; one that is not
  configurable accepts only what does not change it.
\<close>

fun props_define :: "jsval \<Rightarrow> property \<Rightarrow> (jsval \<times> property) list \<Rightarrow> (jsval \<times> property) list result" where
  "props_define key d [] = Ok [(key, d)]"
| "props_define key d ((k, c) # rest) =
     (if k = key then
        (if configurable c then Ok ((k, d) # rest)
         else if configurable d \<or> enumerable d \<noteq> enumerable c \<or> is_accessor c then Err TypeError
         else if \<not> writable c \<and> (writable d \<or> pvalue d \<noteq> pvalue c) then Err TypeError
         else Ok ((k, d) # rest))
      else bind (props_define key d rest) (\<lambda>r. Ok ((k, c) # r)))"

definition object_define :: "jsval \<Rightarrow> property \<Rightarrow> hobj \<Rightarrow> hobj result" where
  "object_define key d ob =
     (case ob of
        HObject pr props \<Rightarrow> bind (props_define key d props) (\<lambda>ps. Ok (HObject pr ps))
      | _ \<Rightarrow> Err TypeError)"

text \<open>
  The keys of a \<open>Map\<close> and the members of a \<open>Set\<close> are compared by value, the two
  zeros being the same; every symbol and function the reader makes is a new one.
\<close>

fun fresh_identity :: "jsval \<Rightarrow> bool" where
  "fresh_identity (JSymbol SymLocal _) = True"
| "fresh_identity (JFunction _) = True"
| "fresh_identity _ = False"

definition zero_key :: "jsval \<Rightarrow> jsval" where
  "zero_key v = (if v = JNum NegZero then JNum (Fin 0) else v)"

fun entries_set :: "jsval \<Rightarrow> jsval \<Rightarrow> (jsval \<times> jsval) list \<Rightarrow> (jsval \<times> jsval) list" where
  "entries_set key v [] = [(key, v)]"
| "entries_set key v ((k, w) # rest) =
     (if k = key \<and> \<not> fresh_identity key then (k, v) # rest else (k, w) # entries_set key v rest)"

definition map_set :: "jsval \<Rightarrow> jsval \<Rightarrow> hobj \<Rightarrow> hobj result" where
  "map_set key v ob =
     (case ob of HMap kvs \<Rightarrow> Ok (HMap (entries_set (zero_key key) v kvs)) | _ \<Rightarrow> Err TypeError)"

definition set_add :: "jsval \<Rightarrow> hobj \<Rightarrow> hobj result" where
  "set_add v ob =
     (case ob of
        HSet items \<Rightarrow>
          Ok (HSet (if zero_key v \<in> set items \<and> \<not> fresh_identity v then items
                    else items @ [zero_key v]))
      | _ \<Rightarrow> Err TypeError)"

text \<open>\<open>new Date(t)\<close> clips the time: not finite or beyond \<open>8.64e15\<close> milliseconds is
  invalid, a fraction is cut off.\<close>

definition time_clip :: "jsnum \<Rightarrow> jsnum" where
  "time_clip t =
     (case t of
        Fin r \<Rightarrow> if \<bar>r\<bar> > 8640000000000000 then NaN else Fin (of_int (trunc r))
      | NegZero \<Rightarrow> Fin 0
      | _ \<Rightarrow> NaN)"

text \<open>The conversion of a value to a string where the host makes a symbol or an
  error from it: a symbol is refused; the string of any other value is kept as the
  value.\<close>

definition stringable :: "jsval \<Rightarrow> jsval result" where
  "stringable v = (if typeof v = TSymbol then Err TypeError else Ok v)"

subsection \<open>The payloads\<close>

definition readPrimitive :: "byte \<Rightarrow> jsval meth" where
  "readPrimitive type =
     (if type = TYPE_NULL then sreturn JNull
      else if type = TYPE_UNDEFINED then sreturn JUndefined
      else if type = TYPE_FALSE then sreturn (JBool False)
      else if type = TYPE_TRUE then sreturn (JBool True)
      else sthrow (UnknownPrimitive type))"

definition int_num :: "int \<Rightarrow> jsval" where
  "int_num i = JNum (Fin (of_int i))"

definition readNumber :: "byte \<Rightarrow> jsval meth" where
  "readNumber type =
     (if type = TYPE_INT8 then sbind readInt8 (\<lambda>v. sreturn (int_num v))
      else if type = TYPE_INT16 then sbind readI16 (\<lambda>v. sreturn (int_num v))
      else if type = TYPE_INT32 then sbind readI32 (\<lambda>v. sreturn (int_num v))
      else if type = TYPE_UINT32 then sbind readU32 (\<lambda>v. sreturn (int_num v))
      else if type = TYPE_FLOAT32 then sbind readF32 (\<lambda>v. sreturn (JNum v))
      else if type = TYPE_FLOAT64 then sbind readF64 (\<lambda>v. sreturn (JNum v))
      else if type = TYPE_NAN then sreturn (JNum NaN)
      else if type = TYPE_INFINITY then sreturn (JNum PosInf)
      else if type = TYPE_NEG_INFINITY then sreturn (JNum NegInf)
      else if type = TYPE_NEG_ZERO then sreturn (JNum NegZero)
      else if type = TYPE_VARINT then
        sbind readVarint (\<lambda>v.
        sbind readU8 (\<lambda>isNegative.
        sreturn (if isNegative \<noteq> 0 then (if v = 0 then JNum NegZero else int_num (- v))
                 else int_num v)))
      else sthrow (UnknownNumberType type))"

text \<open>\<open>BigInt('0x' + hex)\<close> of no digits at all is refused by the host.\<close>

definition readLargeBigInt :: "bool \<Rightarrow> jsval meth" where
  "readLargeBigInt isNegative =
     sbind readVarint (\<lambda>byteLength.
     sthen (ensureBytes (nat byteLength))
    (sbind (take_bytes (nat byteLength)) (\<lambda>bytes.
     if bytes = [] then sthrow SyntaxError
     else sreturn (JBigInt (if isNegative then - le_value bytes else le_value bytes)))))"

definition readBigInt :: "byte \<Rightarrow> jsval meth" where
  "readBigInt type =
     (if type = TYPE_BIGINT_POS_SMALL \<or> type = TYPE_BIGINT_NEG_SMALL then
        sbind readBigInt64 (\<lambda>v. sreturn (JBigInt v))
      else if type = TYPE_BIGINT_POS_LARGE \<or> type = TYPE_BIGINT_NEG_LARGE then
        readLargeBigInt (type = TYPE_BIGINT_NEG_LARGE)
      else sthrow (UnknownBigIntType type))"

definition readString :: "byte \<Rightarrow> jsval meth" where
  "readString type =
     (if type = TYPE_STRING_EMPTY then sreturn (JStr [])
      else
        sbind (if type \<in> {TYPE_STRING_ASCII_TINY, TYPE_STRING_ASCII_SHORT,
                           TYPE_STRING_UTF8_TINY, TYPE_STRING_UTF8_SHORT}
               then readU8 else readVarint) (\<lambda>len.
        sthen (ensureBytes (nat len))
       (sbind (if type \<in> {TYPE_STRING_ASCII_TINY, TYPE_STRING_ASCII_SHORT, TYPE_STRING_ASCII_LONG}
               then sbind (scollect (nat len) readU8) (\<lambda>cs. sreturn (map word_of_int cs))
               else sbind (take_bytes (nat len)) (\<lambda>bytes. sreturn (utf8_decode bytes))) (\<lambda>str.
        sthen (smodify (\<lambda>s. s\<lparr>deserializeStrings := deserializeStrings s @ [JStr str]\<rparr>))
              (sreturn (JStr str))))))"

definition readPackedArrayData :: "byte \<Rightarrow> jsval list meth" where
  "readPackedArrayData type =
     sbind readVarint (\<lambda>len.
     let elementSize = BYTES_PER_ELEMENT type
     in if elementSize = 0 then sthrow (UnknownPackedArrayType type)
        else
          sthen (r_alignPos (int (min elementSize 8)))
         (sthen (ensureBytes (nat len * elementSize))
                (scollect (nat len)
                   (sbind (take_bytes elementSize) (\<lambda>bs.
                    sreturn (if type = TYPE_ARRAY_PACKED_F32 then JNum (bits_float 24 8 (le_value bs))
                             else if type = TYPE_ARRAY_PACKED_F64 then JNum (bits_float 53 11 (le_value bs))
                             else int_num (le_signed bs)))))))"

definition fillArray :: "jsval meth \<Rightarrow> jsval \<Rightarrow> byte \<Rightarrow> unit meth" where
  "fillArray rec array type =
     (if type = TYPE_ARRAY_EMPTY then sreturn ()
      else if type = TYPE_ARRAY_DENSE then
        sbind readVarint (\<lambda>len.
        scount (nat len) 0 (\<lambda>i. sbind rec (\<lambda>v. update_object array (array_set (int i) v))))
      else if type = TYPE_ARRAY_SPARSE then
        sbind readVarint (\<lambda>totalLength.
        sbind readVarint (\<lambda>elementCount.
        sthen (update_object array (array_set_length (nat totalLength)))
              (scount (nat elementCount) 0 (\<lambda>i.
                 sbind readVarint (\<lambda>index.
                 sbind rec (\<lambda>v. update_object array (array_set index v)))))))
      else if type \<in> {TYPE_ARRAY_PACKED_I8, TYPE_ARRAY_PACKED_I16, TYPE_ARRAY_PACKED_I32,
                       TYPE_ARRAY_PACKED_F32, TYPE_ARRAY_PACKED_F64} then
        sbind (readPackedArrayData type) (\<lambda>packedArray. update_object array (array_push packedArray))
      else sreturn ())"

definition fillSimpleObject :: "jsval meth \<Rightarrow> jsval \<Rightarrow> unit meth" where
  "fillSimpleObject rec obj =
     sbind readVarint (\<lambda>keyCount.
     scount (nat keyCount) 0 (\<lambda>i.
       sbind rec (\<lambda>key. sbind rec (\<lambda>v. update_object obj (object_assign key v)))))"

text \<open>The descriptor of \<open>fillObjectWithDescriptors\<close> always has the attribute
  \<open>writable\<close>, so the host refuses it as soon as it also has a getter or a setter.\<close>

definition fillObjectWithDescriptors :: "jsval meth \<Rightarrow> jsval \<Rightarrow> unit meth" where
  "fillObjectWithDescriptors rec obj =
     sbind readVarint (\<lambda>keyCount.
     scount (nat keyCount) 0 (\<lambda>i.
       sbind rec (\<lambda>key.
       sbind readU8 (\<lambda>flags.
       let hasGetter = (js_and flags 8 \<noteq> 0);
           hasSetter = (js_and flags 16 \<noteq> 0)
       in if hasGetter \<or> hasSetter then
            sbind (if hasGetter then rec else sreturn JUndefined) (\<lambda>g.
            sbind (if hasSetter then rec else sreturn JUndefined) (\<lambda>st.
            sthrow TypeError))
          else
            sbind rec (\<lambda>v.
            update_object obj (object_define key
              \<lparr>enumerable = (js_and flags 1 \<noteq> 0), writable = (js_and flags 2 \<noteq> 0),
               configurable = (js_and flags 4 \<noteq> 0), getter = JUndefined, setter = JUndefined,
               pvalue = v\<rparr>))))))"

text \<open>
  \<open>new Function('return ' + functionSource)()\<close> evaluates a source text; what it
  evaluates to is kept as the text. A source that is a symbol cannot be joined to a
  string, which the \<open>catch\<close> turns into the stand-in; any other source that is not a
  string is not followed.
\<close>

definition reconstruct_function :: "jsval \<Rightarrow> jsval result" where
  "reconstruct_function functionSource =
     (case functionSource of
        JStr src \<Rightarrow> Ok (JFunction (Evaluated src))
      | JSymbol _ _ \<Rightarrow> Ok (JFunction DeserializationFailed)
      | _ \<Rightarrow> Err Unmodelled)"

definition fillObjectWithMethods :: "jsval meth \<Rightarrow> jsval \<Rightarrow> unit meth" where
  "fillObjectWithMethods rec obj =
     sbind readVarint (\<lambda>entryCount.
     scount (nat entryCount) 0 (\<lambda>i.
       sbind rec (\<lambda>key.
       sbind readU8 (\<lambda>isFunction.
       if isFunction \<noteq> 0 then
         sbind (sget (\<lambda>s. serializeFunctions (opts s))) (\<lambda>sf.
         if sf then
           sbind rec (\<lambda>functionSource.
           sbind rec (\<lambda>functionName.
           sbind (slift (reconstruct_function functionSource)) (\<lambda>f.
           update_object obj (object_assign key f))))
         else
           sbind readU8 (\<lambda>placeholderType.
           if placeholderType = uint TYPE_FUNCTION_PLACEHOLDER
           then update_object obj (object_assign key (JFunction NotSerialized))
           else sreturn ()))
       else sbind rec (\<lambda>v. update_object obj (object_assign key v))))))"

definition fillConstructorObject :: "jsval meth \<Rightarrow> jsval \<Rightarrow> unit meth" where
  "fillConstructorObject rec obj =
     sbind rec (\<lambda>constructorName.
     sbind readVarint (\<lambda>keyCount.
     sthen (scount (nat keyCount) 0 (\<lambda>i.
              sbind rec (\<lambda>key. sbind rec (\<lambda>v. update_object obj (object_assign key v)))))
           (update_object obj (object_define (JStr (ascii ''__constructorName''))
              \<lparr>enumerable = False, writable = False, configurable = True,
               getter = JUndefined, setter = JUndefined, pvalue = constructorName\<rparr>))))"

definition fillObject :: "jsval meth \<Rightarrow> jsval \<Rightarrow> byte \<Rightarrow> unit meth" where
  "fillObject rec obj type =
     (if type = TYPE_OBJECT_EMPTY then sreturn ()
      else if type = TYPE_OBJECT_LITERAL \<or> type = TYPE_OBJECT_PLAIN then fillSimpleObject rec obj
      else if type = TYPE_OBJECT_WITH_DESCRIPTORS then fillObjectWithDescriptors rec obj
      else if type = TYPE_OBJECT_WITH_METHODS then fillObjectWithMethods rec obj
      else if type = TYPE_OBJECT_CONSTRUCTOR then fillConstructorObject rec obj
      else sreturn ())"

definition fillCollection :: "jsval meth \<Rightarrow> jsval \<Rightarrow> byte \<Rightarrow> unit meth" where
  "fillCollection rec collection type =
     sbind readVarint (\<lambda>size.
     if type = TYPE_MAP then
       scount (nat size) 0 (\<lambda>i.
         sbind rec (\<lambda>key. sbind rec (\<lambda>v. update_object collection (map_set key v))))
     else if type = TYPE_SET then
       scount (nat size) 0 (\<lambda>i. sbind rec (\<lambda>v. update_object collection (set_add v)))
     else sreturn ())"

text \<open>
  \<open>createTypedArray\<close>: \<open>new Constructor(buffer, byteOffset, length)\<close>, which the host
  refuses when the offset is not a multiple of the element size or the elements do not
  fit in the buffer.
\<close>

definition createTypedArray :: "byte \<Rightarrow> jsval \<Rightarrow> int \<Rightarrow> int \<Rightarrow> jsval meth" where
  "createTypedArray type buf byteOffset len =
     (if \<not> (TYPE_UINT8ARRAY \<le> type \<and> type \<le> TYPE_DATAVIEW) then sthrow (UnknownTypedArrayType type)
      else
        sbind (sget heap) (\<lambda>h.
        case buf of
          JObj a \<Rightarrow>
            (case hget h a of
               Some (HArrayBuffer shared bs) \<Rightarrow>
                 (let elementSize = (if type = TYPE_DATAVIEW then 1 else int (BYTES_PER_ELEMENT type))
                  in if byteOffset mod elementSize \<noteq> 0
                        \<or> byteOffset + len * elementSize > int (length bs)
                     then sthrow RangeError
                     else if type = TYPE_DATAVIEW then alloc (HDataView a byteOffset len)
                     else alloc (HTypedArray type a byteOffset len))
             | _ \<Rightarrow> sthrow TypeError)
        | _ \<Rightarrow> sthrow TypeError))"

definition readTypedArray :: "byte \<Rightarrow> jsval meth" where
  "readTypedArray type =
     sbind readU8 (\<lambda>isShared.
     if isShared \<noteq> 0 then
       sbind readVarint (\<lambda>bufferId.
       sbind readVarint (\<lambda>byteOffset.
       sbind readVarint (\<lambda>len.
       sbind (sget deserializeBuffers) (\<lambda>bufs.
       if bufferId \<ge> int (length bufs) then sthrow (InvalidReference BufferTable bufferId)
       else createTypedArray type (bufs ! nat bufferId) byteOffset len))))
     else
       sbind readVarint (\<lambda>byteOffset.
       sbind readVarint (\<lambda>len.
       let elementSize = (if BYTES_PER_ELEMENT type = 0 then 1 else BYTES_PER_ELEMENT type)
       in if type = TYPE_BIGINT64ARRAY \<or> type = TYPE_BIGUINT64ARRAY then
            sthen (r_alignPos 8)
           (sbind (scollect (nat len) (read_view 8)) (\<lambda>vals.
            sbind (alloc (HArrayBuffer False (concat vals))) (\<lambda>buf.
            createTypedArray type buf 0 len)))
          else
            (let totalBytes = nat len * elementSize
             in sthen (r_alignPos (int elementSize))
               (sthen (ensureBytes totalBytes)
               (sbind (take_bytes totalBytes) (\<lambda>data.
                sbind (alloc (HArrayBuffer False data)) (\<lambda>alignedBuffer.
                sthen (smodify (\<lambda>s. s\<lparr>deserializeBuffers := deserializeBuffers s @ [alignedBuffer]\<rparr>))
                      (createTypedArray type alignedBuffer 0 len)))))))))"

definition readArrayBuffer :: "byte \<Rightarrow> jsval meth" where
  "readArrayBuffer type =
     sbind readVarint (\<lambda>len.
     sthen (ensureBytes (nat len))
    (sbind (take_bytes (nat len)) (\<lambda>data.
     sbind (alloc (HArrayBuffer False data)) (\<lambda>buf.
     sthen (smodify (\<lambda>s. s\<lparr>deserializeBuffers := deserializeBuffers s @ [buf]\<rparr>))
           (sreturn buf)))))"

definition readDate :: "byte \<Rightarrow> jsval meth" where
  "readDate type =
     (if type = TYPE_DATE then sbind readF64 (\<lambda>t. alloc (HDate (time_clip t)))
      else if type = TYPE_DATE_INVALID then alloc (HDate NaN)
      else sthrow (UnknownDateType type))"

definition errorConstructors :: "(byte \<times> jsstring) list" where
  "errorConstructors =
     [(TYPE_ERROR, ascii ''Error''), (TYPE_EVAL_ERROR, ascii ''EvalError''),
      (TYPE_RANGE_ERROR, ascii ''RangeError''), (TYPE_REFERENCE_ERROR, ascii ''ReferenceError''),
      (TYPE_SYNTAX_ERROR, ascii ''SyntaxError''), (TYPE_TYPE_ERROR, ascii ''TypeError''),
      (TYPE_URI_ERROR, ascii ''URIError'')]"

text \<open>An error without a stack of its own has the one the host gave it when it was
  made, written \<open>JUndefined\<close>.\<close>

definition readError :: "jsval meth \<Rightarrow> byte \<Rightarrow> jsval meth" where
  "readError rec type =
     sbind rec (\<lambda>message.
     sbind rec (\<lambda>stack.
     let name = (case map_of errorConstructors type of Some n \<Rightarrow> n | None \<Rightarrow> ascii ''Error'');
         stack' = (if truthy stack then stack else JUndefined)
     in if type = TYPE_AGGREGATE_ERROR then
          sbind readVarint (\<lambda>errorCount.
          sbind (scollect (nat errorCount) rec) (\<lambda>errors.
          sbind (slift (stringable message)) (\<lambda>m.
          alloc (HError (ascii ''AggregateError'') m stack' (Some errors)))))
        else
          sbind (slift (stringable message)) (\<lambda>m.
          alloc (HError name m stack' None))))"

definition readRegExp :: "jsval meth \<Rightarrow> jsval meth" where
  "readRegExp rec = sbind rec (\<lambda>source. sbind rec (\<lambda>flags. alloc (HRegExp source flags)))"

definition readBinary :: "byte \<Rightarrow> jsval meth" where
  "readBinary type =
     sbind readVarint (\<lambda>size.
     sbind readVarint (\<lambda>typeStr.
     alloc (HObject ProtoObject
       [(JStr (ascii ''_type''), data_prop (JStr (ascii ''Binary''))),
        (JStr (ascii ''size''), data_prop (int_num size)),
        (JStr (ascii ''typeStr''), data_prop (int_num typeStr))])))"

definition readSpecial :: "jsval meth \<Rightarrow> byte \<Rightarrow> jsval meth" where
  "readSpecial rec type =
     (if type = TYPE_SYMBOL then
        sbind rec (\<lambda>description.
        sbind (slift (stringable description)) (\<lambda>d. sreturn (JSymbol SymLocal d)))
      else if type = TYPE_SYMBOL_NO_DESC then sreturn (JSymbol SymLocal JUndefined)
      else if type = TYPE_SYMBOL_GLOBAL then
        sbind rec (\<lambda>key.
        sbind (slift (stringable key)) (\<lambda>k. sreturn (JSymbol SymGlobal k)))
      else if type = TYPE_SYMBOL_WELLKNOWN then
        sbind rec (\<lambda>wellKnownName.
        if wellKnownName \<in> set (map JStr wellKnownNames)
        then sreturn (JSymbol SymWellKnown wellKnownName)
        else sbind (slift (stringable wellKnownName)) (\<lambda>d. sreturn (JSymbol SymLocal d)))
      else sthrow (UnknownSpecialType type))"

definition readExtension :: "byte \<Rightarrow> jsval meth" where
  "readExtension type =
     (if type = TYPE_FUNCTION_PLACEHOLDER then sreturn (JFunction NotSerialized)
      else sthrow (UnknownExtensionType type))"

subsection \<open>readValue\<close>

definition read_reference :: "ref_table \<Rightarrow> (codec \<Rightarrow> jsval list) \<Rightarrow> jsval meth" where
  "read_reference table tab =
     sbind readVarint (\<lambda>refId.
     sbind (sget tab) (\<lambda>entries.
     if refId \<ge> int (length entries) then sthrow (InvalidReference table refId)
     else sreturn (entries ! nat refId)))"

definition readValue_body :: "jsval meth \<Rightarrow> jsval meth" where
  "readValue_body rec =
     sbind (sget (\<lambda>s. rpos s \<ge> length (buffer s))) (\<lambda>atEnd.
     if atEnd then sthrow UnexpectedEnd
     else
       sbind readU8 (\<lambda>t.
       let type = (word_of_int t :: byte)
       in if type = TYPE_REFERENCE \<or> type = TYPE_CIRCULAR_REF
          then read_reference ObjectTable deserializeRefs
          else if type = TYPE_STRING_REF then read_reference StringTable deserializeStrings
          else if type = TYPE_BUFFER_REF then read_reference BufferTable deserializeBuffers
          else
            (let group = type AND 0xF0
             in if group = GROUP_OBJECT \<or> group = GROUP_ARRAY \<or> group = GROUP_COLLECTION then
                  sbind (if group = GROUP_ARRAY then alloc (HArray [])
                         else if group = GROUP_COLLECTION then
                           (if type = TYPE_MAP then alloc (HMap [])
                            else if type = TYPE_SET then alloc (HSet [])
                            else sreturn JUndefined)
                         else alloc (HObject ProtoObject [])) (\<lambda>v.
                  sthen (if truthy v
                         then smodify (\<lambda>s. s\<lparr>deserializeRefs := deserializeRefs s @ [v]\<rparr>)
                         else sreturn ())
                 (sthen (if group = GROUP_ARRAY then fillArray rec v type
                         else if group = GROUP_OBJECT then fillObject rec v type
                         else fillCollection rec v type)
                        (sreturn v)))
                else
                  sbind (if group = GROUP_PRIMITIVE then readPrimitive type
                         else if group = GROUP_NUMBER then readNumber type
                         else if group = GROUP_BIGINT then readBigInt type
                         else if group = GROUP_STRING then readString type
                         else if group = GROUP_TYPED then readTypedArray type
                         else if group = GROUP_BUFFER then readArrayBuffer type
                         else if group = GROUP_DATE then readDate type
                         else if group = GROUP_ERROR then readError rec type
                         else if group = GROUP_REGEX then readRegExp rec
                         else if group = GROUP_BINARY then readBinary type
                         else if group = GROUP_SPECIAL then readSpecial rec type
                         else if group = GROUP_EXTENSION then readExtension type
                         else sthrow (UnknownType type)) (\<lambda>v.
                  sthen (if is_object v
                         then smodify (\<lambda>s. s\<lparr>deserializeRefs := deserializeRefs s @ [v]\<rparr>)
                         else sreturn ())
                        (sreturn v)))))"

text \<open>\<open>readValue\<close>, the recursion as deep as the first argument.\<close>

fun readValue :: "nat \<Rightarrow> jsval meth" where
  "readValue 0 s = OutOfFuel"
| "readValue (Suc n) s = readValue_body (readValue n) s"

definition deserialize :: "nat \<Rightarrow> byte list \<Rightarrow> jsval meth" where
  "deserialize fuel input s0 =
     (sthen (smodify (\<lambda>s. s\<lparr>buffer := input, rpos := 0, deserializeRefs := [],
                            deserializeStrings := [], deserializeBuffers := []\<rparr>))
     (sbind readU32 (\<lambda>magic.
      if magic \<noteq> 0x54425235 then sthrow InvalidData
      else
        sbind readU8 (\<lambda>version.
        if version \<noteq> 5 then sthrow (UnsupportedVersion version)
        else readValue fuel)))) s0"


section \<open>Notions for the statements\<close>

text \<open>
  The variable-length integer of the format as the specification words it: groups of
  seven bits, least significant first, the high bit of a byte set when another follows.
\<close>

function leb128 :: "int \<Rightarrow> byte list" where
  "leb128 n = (if n < 128 then [word_of_int n] else word_of_int (n mod 128 + 128) # leb128 (n div 128))"
  by pat_completeness auto
termination
  by (relation "measure (\<lambda>n. nat n)") auto

text \<open>A pool between two writes: the cursor is inside the buffer, and the buffer is
  at most half a gigabyte, so that none of the 32-bit operations of \<open>ensure\<close> wraps
  around.\<close>

definition pool_ok :: "pool \<Rightarrow> bool" where
  "pool_ok p = (0 \<le> pos p \<and> pos p \<le> psize p \<and> psize p \<le> 2 ^ 29)"

text \<open>What a call on a fresh instance returns: the bytes, and the value with the heap
  it lives in.\<close>

definition serialize_fresh :: "options \<Rightarrow> heap \<Rightarrow> jsval \<Rightarrow> byte list result" where
  "serialize_fresh os h v =
     bind (serialize (Suc (length h)) v (new_codec os h)) (\<lambda>(bytes, s). Ok bytes)"

definition deserialize_fresh :: "options \<Rightarrow> byte list \<Rightarrow> (jsval \<times> heap) result" where
  "deserialize_fresh os input =
     bind (deserialize (Suc (length input)) input (new_codec os [])) (\<lambda>(v, s). Ok (v, heap s))"

text \<open>The range of an integer tag contains a number, and the width of its payload.\<close>

definition tag_fits :: "byte \<Rightarrow> int \<Rightarrow> bool" where
  "tag_fits t n =
     ((t = TYPE_INT8 \<and> - 128 \<le> n \<and> n \<le> 127) \<or>
      (t = TYPE_INT16 \<and> - 32768 \<le> n \<and> n \<le> 32767) \<or>
      (t = TYPE_INT32 \<and> - 2147483648 \<le> n \<and> n \<le> 2147483647))"

definition tag_width :: "byte \<Rightarrow> nat" where
  "tag_width t = (if t = TYPE_INT8 then 1 else if t = TYPE_INT16 then 2 else 4)"

text \<open>The same for the element type of a packed array of integers.\<close>

definition packed_fits :: "byte \<Rightarrow> int \<Rightarrow> bool" where
  "packed_fits t n =
     ((t = TYPE_ARRAY_PACKED_I8 \<and> - 128 \<le> n \<and> n \<le> 127) \<or>
      (t = TYPE_ARRAY_PACKED_I16 \<and> - 32768 \<le> n \<and> n \<le> 32767) \<or>
      (t = TYPE_ARRAY_PACKED_I32 \<and> - 2147483648 \<le> n \<and> n \<le> 2147483647))"

text \<open>An array of integers as the host has it, and the numbers in it.\<close>

definition int_array :: "int list \<Rightarrow> jsval option list" where
  "int_array ns = map (\<lambda>n. Some (JNum (Fin (of_int n)))) ns"

definition int_nums :: "int list \<Rightarrow> jsnum list" where
  "int_nums ns = map (\<lambda>n. Fin (of_int n)) ns"

text \<open>The three reference tags with the table each one indexes.\<close>

definition reference_table :: "byte \<Rightarrow> (ref_table \<times> (codec \<Rightarrow> jsval list)) option" where
  "reference_table t =
     (if t = TYPE_REFERENCE then Some (ObjectTable, deserializeRefs)
      else if t = TYPE_STRING_REF then Some (StringTable, deserializeStrings)
      else if t = TYPE_BUFFER_REF then Some (BufferTable, deserializeBuffers)
      else None)"

text \<open>An instance about to decode \<open>input\<close> from offset \<open>p\<close> with empty tables.\<close>

definition reader_at :: "byte list \<Rightarrow> nat \<Rightarrow> codec" where
  "reader_at input p = (new_codec default_options [])\<lparr>buffer := input, rpos := p\<rparr>"

definition in_int32 :: "int \<Rightarrow> bool" where
  "in_int32 n = (- 2147483648 \<le> n \<and> n \<le> 2147483647)"


section \<open>Facts about the integer operators\<close>

lemma toInt32_id: "- 2147483648 \<le> x \<Longrightarrow> x < 2147483648 \<Longrightarrow> toInt32 x = x"
  by (simp add: toInt32_def)

lemma toUint32_id: "0 \<le> x \<Longrightarrow> x < 4294967296 \<Longrightarrow> toUint32 x = x"
  by (simp add: toUint32_def)

lemma toUint32_range: "0 \<le> toUint32 x \<and> toUint32 x < 4294967296"
  by (simp add: toUint32_def)

lemma and_not_mask_int: "(x::int) AND NOT (mask n) = x - x mod 2 ^ n"
proof -
  have "x AND NOT (mask n) = push_bit n (drop_bit n x)"
    by (rule bit_eqI) (auto simp: bit_simps)
  also have "\<dots> = x div 2 ^ n * 2 ^ n"
    by (simp add: push_bit_eq_mult drop_bit_eq_div)
  also have "\<dots> = x - x mod 2 ^ n"
    by (simp add: minus_mod_eq_div_mult)
  finally show ?thesis .
qed

lemma and_127: "(x::int) AND 127 = x mod 128"
proof -
  have "x AND mask 7 = x mod 2 ^ 7"
    by (simp only: take_bit_eq_mask [symmetric] take_bit_eq_mod)
  then show ?thesis by (simp add: mask_eq_exp_minus_1)
qed

lemma or_128: "0 \<le> x \<Longrightarrow> x < 128 \<Longrightarrow> (x::int) OR 128 = x + 128"
proof -
  assume a: "0 \<le> x" "x < 128"
  have t: "take_bit 7 x = x" using a by (simp add: take_bit_int_eq_self)
  have "x AND 2 ^ 7 = 0"
  proof (rule bit_eqI)
    fix n
    have "bit x n \<Longrightarrow> n < 7" using t by (metis bit_take_bit_iff)
    moreover have "bit ((2::int) ^ 7) n \<longleftrightarrow> n = 7" by (simp only: bit_exp_iff) auto
    ultimately show "bit (x AND 2 ^ 7) n = bit (0::int) n"
      by (auto simp only: bit_and_iff bit_0_eq)
  qed
  then have "x + 2 ^ 7 = x OR 2 ^ 7" by (rule disjunctive_add_eq_or)
  then show ?thesis by simp
qed

lemma group_byte: "js_or (js_and v 0x7F) 0x80 = v mod 128 + 128"
proof -
  have "js_and v 0x7F = v mod 128"
    by (simp add: js_and_def and_127 toInt32_id)
  then show ?thesis
    by (simp add: js_or_def or_128 toInt32_id)
qed

lemma ushr7: "0 \<le> v \<Longrightarrow> v < 4294967296 \<Longrightarrow> js_ushr v 7 = v div 128"
  by (simp add: js_ushr_def toUint32_id)

text \<open>Rounding down to a multiple of a power of two, as the source writes it.\<close>

lemma js_align: "0 \<le> x \<Longrightarrow> x < 2147483648 \<Longrightarrow> 0 < k \<Longrightarrow> k < 31 \<Longrightarrow>
    toUint32 (js_and x (js_not (2 ^ k - 1))) = x - x mod 2 ^ k"
proof -
  assume a: "0 \<le> x" "x < 2147483648" "0 < k" "k < 31"
  have "(2::int) ^ k \<le> 2 ^ 30" using a by (intro power_increasing) auto
  then have p: "(2::int) ^ k \<le> 1073741824" by simp
  have q: "0 < (2::int) ^ k" by simp
  have "NOT ((2::int) ^ k - 1) = - (2 ^ k)" by (simp add: not_int_def)
  moreover have "toInt32 (- (2 ^ k)) = - (2 ^ k)"
    by (rule toInt32_id) (use p q in linarith)+
  ultimately have n: "js_not (2 ^ k - 1) = NOT (mask k)"
    unfolding js_not_def mask_eq_exp_minus_1 by simp
  have e: "x AND NOT (mask k) = x - x mod 2 ^ k" by (rule and_not_mask_int)
  have b: "0 \<le> x - x mod 2 ^ k" "x - x mod 2 ^ k \<le> x"
    by (simp_all add: a(1) zmod_le_nonneg_dividend)
  have "toInt32 (x - x mod 2 ^ k) = x - x mod 2 ^ k"
    by (rule toInt32_id) (use a b in linarith)+
  moreover have "toUint32 (x - x mod 2 ^ k) = x - x mod 2 ^ k"
    by (rule toUint32_id) (use a b in linarith)+
  ultimately show ?thesis
    unfolding js_and_def n e by simp
qed

lemma cache_align_ge: "0 \<le> n \<Longrightarrow> n < 2 ^ 31 - 128 \<Longrightarrow> n \<le> cache_align n \<and> cache_align n < n + 128"
proof -
  assume a: "0 \<le> n" "n < 2 ^ 31 - 128"
  have "cache_align n = toUint32 (js_and (n + 127) (js_not (2 ^ 7 - 1)))"
    by (simp add: cache_align_def CACHE_LINE_SIZE_def add.commute)
  also have "\<dots> = (n + 127) - (n + 127) mod 2 ^ 7"
    using a by (intro js_align) auto
  finally show ?thesis by simp arith
qed

section \<open>The pool reserves what writeVarint stores\<close>

declare leb128.simps [simp del]

declare varint_loop.simps [simp del]

lemma bytes_at_Suc: "bytes_at f i (Suc n) = f i # bytes_at f (i + 1) n"
proof -
  have "[0..<Suc n] = 0 # map Suc [0..<n]"
    by (simp add: upt_conv_Cons map_Suc_upt del: upt_Suc)
  then show ?thesis
    by (simp add: bytes_at_def o_def add.assoc del: upt_Suc)
qed

lemma bytes_at_append: "bytes_at f i (m + n) = bytes_at f i m @ bytes_at f (i + int m) n"
proof (induction m arbitrary: i)
  case 0
  show ?case by (simp add: bytes_at_def)
next
  case (Suc m)
  have "bytes_at f (i + 1) (m + n) = bytes_at f (i + 1) m @ bytes_at f (i + 1 + int m) n"
    by (rule Suc.IH)
  then show ?case by (simp add: bytes_at_Suc ac_simps)
qed

lemma bytes_at_cong:
  "(\<And>j. i \<le> j \<Longrightarrow> j < i + int n \<Longrightarrow> f j = g j) \<Longrightarrow> bytes_at f i n = bytes_at g i n"
  by (simp add: bytes_at_def)

lemma ensure_grows:
  assumes ok: "pool_ok p" and n: "0 \<le> n" "n \<le> 2 ^ 29"
  shows "\<exists>q. ensure n p = Ok q \<and> pos q = pos p \<and> pos p + n \<le> psize q \<and>
             psize p \<le> psize q \<and> writes q = writes p \<and>
             (\<forall>j. 0 \<le> j \<and> j < pos p \<longrightarrow> u8 q j = u8 p j)"
proof -
  from ok have p: "0 \<le> pos p" "pos p \<le> psize p" "psize p \<le> 536870912"
    by (simp_all add: pool_ok_def)
  from n have n': "n \<le> 536870912" by simp
  have b: "toInt32 n = n" by (rule toInt32_id) (use n n' in linarith)+
  have r: "toInt32 (pos p + n) = pos p + n" by (rule toInt32_id) (use n n' p in linarith)+
  show ?thesis
  proof (cases "pos p + n > psize p")
    case False
    then show ?thesis using p by (simp add: ensure_def b r Let_def)
  next
    case True
    define newSize where "newSize = max (2 * psize p) (pos p + n + 128)"
    have "toInt32 (psize p * 2) = psize p * 2" by (rule toInt32_id) (use p in linarith)+
    then have s: "js_shl (psize p) (Suc 0) = 2 * psize p"
      unfolding js_shl_def by (simp add: mult.commute)
    have ns: "0 \<le> newSize" "newSize < 2 ^ 31 - 128" "pos p + n + 128 \<le> newSize"
      using p n n' by (simp_all add: newSize_def)
    have t: "toInt32 newSize = newSize" by (rule toInt32_id) (use ns in simp_all)
    have ca: "newSize \<le> cache_align newSize" using cache_align_ge [OF ns(1,2)] by simp
    have src: "subarray_end (psize p) (pos p) = pos p"
      using p by (simp add: subarray_end_def)
    have nlt: "\<not> cache_align newSize < pos p" using ca ns n by linarith
    have "2 * psize p \<le> newSize" by (simp add: newSize_def)
    then have ge: "psize p \<le> cache_align newSize" using ca p by linarith
    have eq: "ensure n p = Ok (p\<lparr>u8 := (\<lambda>j. if 0 \<le> j \<and> j < pos p then u8 p j else 0),
                 psize := cache_align newSize\<rparr>)"
      using True nlt
      by (simp add: ensure_def b r s CACHE_LINE_SIZE_def Let_def newSize_def [symmetric] t src)
    show ?thesis unfolding eq using ca ns p n ge by auto
  qed
qed

lemma leb128_length: "0 \<le> v \<Longrightarrow> v < 4294967296 \<Longrightarrow> length (leb128 v) \<le> 5"
  by (subst leb128.simps, simp, subst leb128.simps, simp, subst leb128.simps, simp,
      subst leb128.simps, simp, subst leb128.simps, simp)

lemma leb128_nonempty: "1 \<le> length (leb128 v)"
  by (subst leb128.simps) simp

text \<open>The loop stores the groups of the value one after the other from its cursor,
  inside the buffer, and leaves everything before the cursor as it was.\<close>

lemma varint_loop_spec:
  "128 \<le> v \<Longrightarrow> v < 4294967296 \<Longrightarrow> 0 \<le> i \<Longrightarrow>
   i + int (length (leb128 v)) \<le> psize p \<Longrightarrow>
   (case varint_loop v i p of (v', i', p') \<Rightarrow>
      i' + 1 = i + int (length (leb128 v)) \<and>
      bytes_at (u8 (u8_store i' v' p')) i (length (leb128 v)) = leb128 v \<and>
      (\<forall>j. j < i \<longrightarrow> u8 (u8_store i' v' p') j = u8 p j) \<and>
      psize (u8_store i' v' p') = psize p \<and> writes (u8_store i' v' p') = writes p)"
proof (induction v i p rule: varint_loop.induct)
  case (1 v i p)
  let ?g = "js_or (js_and v 0x7F) 0x80"
  let ?p1 = "u8_store i ?g p"
  let ?v1 = "js_ushr v 7"
  have v1: "?v1 = v div 128" using 1 by (simp add: ushr7)
  have g: "?g = v mod 128 + 128" by (rule group_byte)
  have l: "leb128 v = word_of_int (v mod 128 + 128) # leb128 (v div 128)"
    using 1(2) by (subst leb128.simps) simp
  have ilt: "i < psize p" using 1(5) l by simp
  have p1: "u8 ?p1 = (u8 p)(i := word_of_int (v mod 128 + 128))" "psize ?p1 = psize p"
    "writes ?p1 = writes p"
    using 1(4) ilt by (simp_all add: u8_store_def g)
  show ?case
  proof (cases "?v1 \<ge> 0x80")
    case True
    have ih: "case varint_loop ?v1 (i + 1) ?p1 of (v', i', p') \<Rightarrow>
      i' + 1 = (i + 1) + int (length (leb128 ?v1)) \<and>
      bytes_at (u8 (u8_store i' v' p')) (i + 1) (length (leb128 ?v1)) = leb128 ?v1 \<and>
      (\<forall>j. j < i + 1 \<longrightarrow> u8 (u8_store i' v' p') j = u8 ?p1 j) \<and>
      psize (u8_store i' v' p') = psize ?p1 \<and> writes (u8_store i' v' p') = writes ?p1"
    proof (rule "1.IH" [OF refl refl True])
      show "128 \<le> ?v1" using True by simp
      show "?v1 < 4294967296" using 1(2,3) v1 by simp
      show "0 \<le> i + 1" using 1(4) by simp
      show "i + 1 + int (length (leb128 ?v1)) \<le> psize ?p1"
        using 1(5) l p1 v1 by simp
    qed
    obtain v' i' p' where r: "varint_loop ?v1 (i + 1) ?p1 = (v', i', p')"
      by (cases "varint_loop ?v1 (i + 1) ?p1") auto
    have r0: "varint_loop v i p = (v', i', p')"
      using True r by (subst varint_loop.simps) (simp add: Let_def)
    note ih' = ih [unfolded r prod.case]
    from ih' have a: "i' + 1 = (i + 1) + int (length (leb128 (v div 128)))"
      and b: "bytes_at (u8 (u8_store i' v' p')) (i + 1) (length (leb128 (v div 128))) = leb128 (v div 128)"
      and c: "\<And>j. j < i + 1 \<Longrightarrow> u8 (u8_store i' v' p') j = u8 ?p1 j"
      and d: "psize (u8_store i' v' p') = psize ?p1" "writes (u8_store i' v' p') = writes ?p1"
      unfolding v1 by blast+
    have at_i: "u8 (u8_store i' v' p') i = word_of_int (v mod 128 + 128)"
      using c [of i] p1 by simp
    have before: "\<And>j. j < i \<Longrightarrow> u8 (u8_store i' v' p') j = u8 p j"
      using c p1 by simp
    show ?thesis
      unfolding r0 using a b at_i before d p1
      by (simp add: l bytes_at_Suc)
  next
    case False
    have l1: "leb128 (v div 128) = [word_of_int (v div 128)]"
      using False v1 by (subst leb128.simps) simp
    have r0: "varint_loop v i p = (?v1, i + 1, ?p1)"
      using False by (subst varint_loop.simps) (simp add: Let_def)
    have i1: "0 \<le> i + 1" "i + 1 < psize ?p1" using 1(4,5) l l1 p1 by simp_all
    show ?thesis
      unfolding r0 using i1 p1
      by (simp add: l l1 v1 u8_store_def bytes_at_Suc bytes_at_def)
  qed
qed

lemma getResult_ok: "0 \<le> pos p \<Longrightarrow> pos p \<le> psize p \<Longrightarrow> getResult p = bytes_at (u8 p) 0 (nat (pos p))"
  by (simp add: getResult_def subarray_end_def)

text \<open>
  C9. \<open>writeVarint\<close> starts with \<open>ensure(5)\<close>, after which the capacity is at least
  five bytes past the cursor. For every argument, taken modulo \<open>2 ^ 32\<close> as the source
  does, it then advances the cursor by the length of the variable-length form of the
  value, which is at most five, and the bytes it stored are exactly that form: every
  store landed inside the capacity, none was dropped.
\<close>

theorem writeVarint_within_capacity:
  assumes ok: "pool_ok p"
  shows "\<exists>q p'. ensure 5 p = Ok q \<and> pos q = pos p \<and> pos p + 5 \<le> psize q \<and>
           writeVarint u p = Ok p' \<and> psize p' = psize q \<and>
           length (leb128 (toUint32 u)) \<le> 5 \<and>
           pos p' = pos p + int (length (leb128 (toUint32 u))) \<and>
           getResult p' = getResult p @ leb128 (toUint32 u)"
proof -
  define v where "v = toUint32 u"
  have v: "0 \<le> v" "v < 4294967296" using toUint32_range [of u] by (simp_all add: v_def)
  from ok have p: "0 \<le> pos p" "pos p \<le> 536870912" "pos p \<le> psize p"
    by (simp_all add: pool_ok_def)
  obtain q where q: "ensure 5 p = Ok q" "pos q = pos p" "pos p + 5 \<le> psize q"
      "\<And>j. 0 \<le> j \<Longrightarrow> j < pos p \<Longrightarrow> u8 q j = u8 p j"
    using ensure_grows [OF ok, of 5] by auto
  have len5: "length (leb128 v) \<le> 5" using v by (rule leb128_length)
  have len1: "1 \<le> length (leb128 v)" by (rule leb128_nonempty)
  have i0: "0 \<le> pos q" using p q by simp
  have "\<exists>p'. writeVarint u p = Ok p' \<and> psize p' = psize q \<and>
           pos p' = pos p + int (length (leb128 v)) \<and>
           bytes_at (u8 p') (pos p) (length (leb128 v)) = leb128 v \<and>
           (\<forall>j. 0 \<le> j \<and> j < pos p \<longrightarrow> u8 p' j = u8 p j)"
  proof -
    consider (small) "v < 0x80" | (medium) "0x80 \<le> v" "v < 0x4000" | (large) "0x4000 \<le> v"
      by linarith
    then show ?thesis
    proof cases
      case small
      have l: "leb128 v = [word_of_int v]" using small by (subst leb128.simps) simp
      show ?thesis
        using small q i0
        by (simp add: writeVarint_def bind_def v_def [symmetric] l u8_store_def bytes_at_def)
    next
      case medium
      have l: "leb128 v = [word_of_int (v mod 128 + 128), word_of_int (v div 128)]"
        using medium by (subst leb128.simps, simp, subst leb128.simps, simp)
      have t: "toInt32 (pos p + 2) = pos p + 2" by (rule toInt32_id) (use p in linarith)+
      show ?thesis
        using medium q i0 v
        by (simp add: writeVarint_def bind_def v_def [symmetric] l group_byte ushr7 t
                      u8_store_def bytes_at_Suc bytes_at_def)
    next
      case large
      have b: "128 \<le> v" using large by simp
      have fit: "pos q + int (length (leb128 v)) \<le> psize q" using len5 q by simp
      note sp = varint_loop_spec [OF b v(2) i0 fit]
      obtain v' i' p' where r: "varint_loop v (pos q) q = (v', i', p')"
        by (cases "varint_loop v (pos q) q") auto
      show ?thesis
        using large sp r q
        by (simp add: writeVarint_def bind_def v_def [symmetric])
    qed
  qed
  then obtain p' where p': "writeVarint u p = Ok p'" "psize p' = psize q"
      "pos p' = pos p + int (length (leb128 v))"
      "bytes_at (u8 p') (pos p) (length (leb128 v)) = leb128 v"
      "\<And>j. 0 \<le> j \<Longrightarrow> j < pos p \<Longrightarrow> u8 p' j = u8 p j"
    by auto
  have "getResult p' = bytes_at (u8 p') 0 (nat (pos p) + length (leb128 v))"
  proof -
    have "nat (pos p') = nat (pos p) + length (leb128 v)" using p'(3) p by simp
    moreover have "pos p' \<le> psize p'" using p'(2,3) q(3) len5 by simp
    moreover have "0 \<le> pos p'" using p'(3) p by simp
    ultimately show ?thesis by (simp add: getResult_ok)
  qed
  also have "\<dots> = bytes_at (u8 p') 0 (nat (pos p)) @ bytes_at (u8 p') (pos p) (length (leb128 v))"
    using p by (simp add: bytes_at_append)
  also have "bytes_at (u8 p') 0 (nat (pos p)) = bytes_at (u8 p) 0 (nat (pos p))"
    by (rule bytes_at_cong) (use p' p in simp)
  also have "\<dots> = getResult p" using p by (simp add: getResult_ok)
  finally have "getResult p' = getResult p @ leb128 v" using p'(4) by simp
  then show ?thesis using q p' len5 by (auto simp: v_def)
qed

theorem writeVarint_within_capacity_witness:
  "pool_ok (new_pool 65536) \<and>
   (\<exists>q p'. ensure 5 (new_pool 65536) = Ok q \<and> pos q = pos (new_pool 65536) \<and>
      pos (new_pool 65536) + 5 \<le> psize q \<and>
      writeVarint 300 (new_pool 65536) = Ok p' \<and> psize p' = psize q \<and>
      length (leb128 (toUint32 300)) \<le> 5 \<and>
      pos p' = pos (new_pool 65536) + int (length (leb128 (toUint32 300))) \<and>
      getResult p' = getResult (new_pool 65536) @ leb128 (toUint32 300))"
proof -
  have h: "pool_ok (new_pool 65536)" by code_simp
  show ?thesis using h writeVarint_within_capacity [OF h, of 300] by blast
qed


section \<open>The classifier of numbers\<close>

lemma typeIndex_value:
  "js_or (js_or (js_shl (b2i a) 0) (js_shl (b2i b) (Suc 0))) (js_shl (b2i c) 2)
     = b2i a + 2 * b2i b + 4 * b2i c"
  by (cases a; cases b; cases c) (simp_all add: js_or_def js_shl_def b2i_def toInt32_def)

lemma trunc_of_int: "trunc (of_int n) = n"
  by (simp add: trunc_def)

lemma toInt32_range: "- 2147483648 \<le> toInt32 x \<and> toInt32 x < 2147483648"
  by (simp add: toInt32_def)

lemma num_eq_Fin: "num_eq (Fin a) (Fin b) \<longleftrightarrow> a = b"
  by (simp add: num_eq_def)

lemma num_le_Fin: "num_le (Fin a) (Fin b) \<longleftrightarrow> a \<le> b"
  by (auto simp: num_le_def num_lt_def num_eq_def)

text \<open>A number in the 32-bit range other than the least one is an integer to the
  classifier, and its tag is always \<open>INT32\<close>.\<close>

lemma detectNumber_int32:
  assumes "\<bar>n\<bar> \<le> 2147483647"
  shows "detectNumber (Fin (of_int n)) = TYPE_INT32"
proof -
  have t: "toInt32 n = n" by (rule toInt32_id) (use assms in linarith)+
  have z: "\<not> (num_eq (Fin (of_int n)) (Fin 0) \<and> sign_bit (Fin (of_int n)))"
    by (auto simp: num_eq_Fin)
  have c: "num_le (Fin \<bar>of_int n\<bar>) (Fin 2147483647)"
    using assms unfolding num_le_Fin by (metis of_int_abs of_int_le_iff of_int_numeral)
  define a where "a = num_le (Fin \<bar>of_int n :: rat\<bar>) (Fin 127)"
  define b where "b = num_le (Fin \<bar>of_int n :: rat\<bar>) (Fin 32767)"
  have "min (b2i a + 2 * b2i b + 4 * b2i True) 3 = 3"
    by (simp add: b2i_def)
  then show ?thesis
    using z c
    by (simp add: detectNumber_def trunc_of_int t num_eq_Fin Let_def typeIndex_value
                  a_def [symmetric] b_def [symmetric])
qed

lemma detectNumber_int_min: "detectNumber (Fin (- 2147483648)) = TYPE_VARINT"
  by code_simp

text \<open>
  C8, as the source has it. The only number classified as \<open>VARINT\<close> is \<open>-2 ^ 31\<close>:
  an integer, and a negative one.
\<close>

theorem varint_tag_only_for_int_min:
  "detect h (JNum v) = Ok TYPE_VARINT \<Longrightarrow> v = Fin (- 2147483648)"
proof -
  assume d: "detect h (JNum v) = Ok TYPE_VARINT"
  then have dn: "detectNumber v = TYPE_VARINT" by (simp add: detect_def)
  show ?thesis
  proof (cases v)
    case (Fin r)
    define k where "k = toInt32 (trunc r)"
    have kr: "- 2147483648 \<le> k" "k < 2147483648" using toInt32_range [of "trunc r"] by (simp_all add: k_def)
    show ?thesis
    proof (cases "r = of_int k")
      case False
      then show ?thesis using dn Fin
        by (simp add: detectNumber_def num_eq_Fin k_def [symmetric] Let_def split: if_splits)
    next
      case True
      show ?thesis
      proof (cases "\<bar>k\<bar> \<le> 2147483647")
        case True
        then have "detectNumber (Fin (of_int k)) = TYPE_INT32" by (rule detectNumber_int32)
        then show ?thesis using dn Fin \<open>r = of_int k\<close> by simp
      next
        case False
        then have "k = - 2147483648" using kr by linarith
        then show ?thesis using Fin \<open>r = of_int k\<close> by simp
      qed
    qed
  qed (use dn in \<open>simp_all add: detectNumber_def num_eq_def\<close>)
qed

theorem varint_tag_only_for_int_min_witness:
  "detect [] (JNum (Fin (- 2147483648))) = Ok TYPE_VARINT \<and>
   Fin (- 2147483648) = Fin (- 2147483648)"
proof -
  have h: "detect [] (JNum (Fin (- 2147483648))) = Ok TYPE_VARINT" by code_simp
  show ?thesis using h varint_tag_only_for_int_min [OF h] by simp
qed

text \<open>
  C8, as the claim states it, fails: the classifier gives \<open>VARINT\<close> to \<open>-2147483648\<close>,
  which is negative, and \<open>serialize\<close> writes that tag, the varint of the magnitude and
  a sign byte.
\<close>

theorem varint_tag_negative_counterexample:
  "detectNumber (Fin (- 2147483648)) = TYPE_VARINT \<and> sign_bit (Fin (- 2147483648)) \<and>
   serialize_fresh default_options [] (JNum (Fin (- 2147483648)))
     = Ok [0x35, 0x52, 0x42, 0x54, 0x05, 0x1A, 0x80, 0x80, 0x80, 0x80, 0x08, 0x01]"
  by code_simp

section \<open>The header and the first scenarios\<close>

text \<open>
  C5, as the claim states it, fails: the second byte of the magic \<open>0x54425235\<close> in
  little-endian order is \<open>0x52\<close>, not \<open>0x32\<close>.
\<close>

theorem serialize_null_counterexample:
  "serialize_fresh default_options [] JNull \<noteq> Ok [0x35, 0x32, 0x42, 0x54, 0x05, 0x00]"
  by code_simp

text \<open>
  C5, as the source has it: \<open>serialize(null)\<close> returns the six bytes
  \<open>35 52 42 54 05 00\<close>, the magic \<open>0x54425235\<close> in little-endian order, the version
  and the tag \<open>NULL\<close>.
\<close>

theorem serialize_null_bytes:
  "serialize_fresh default_options [] JNull = Ok [0x35, 0x52, 0x42, 0x54, 0x05, 0x00] \<and>
   le_bytes 4 0x54425235 = [0x35, 0x52, 0x42, 0x54]"
  by code_simp

text \<open>
  C3, as the claim states it, fails: 1000 is classified as \<open>INT32\<close>, not \<open>INT16\<close>, and
  the bytes of \<open>serialize(1000)\<close> are not the eight of the claim.
\<close>

theorem serialize_1000_counterexample:
  "detectNumber (Fin 1000) \<noteq> TYPE_INT16 \<and>
   serialize_fresh default_options [] (JNum (Fin 1000))
     \<noteq> Ok [0x35, 0x42, 0x42, 0x54, 0x05, 0x11, 0xE8, 0x03]"
  by code_simp

text \<open>
  C3, as the source has it by design: every integer of magnitude below \<open>2 ^ 31\<close> gets
  one of the tags \<open>INT8\<close>, \<open>INT16\<close>, \<open>INT32\<close> whose range contains it; and
  \<open>serialize(1000)\<close> is the header \<open>35 52 42 54 05\<close>, that tag at offset 5, zero
  padding up to the alignment of the tag's width, and 1000 in little-endian order.
\<close>

theorem integer_tag_contains_value:
  "(\<forall>n. \<bar>n\<bar> \<le> 2147483647 \<longrightarrow> tag_fits (detectNumber (Fin (of_int n))) n) \<and>
   (let t = detectNumber (Fin 1000); w = tag_width t
    in serialize_fresh default_options [] (JNum (Fin 1000))
         = Ok ([0x35, 0x52, 0x42, 0x54, 0x05, t] @ replicate ((w - 6 mod w) mod w) 0
               @ le_bytes w 1000))"
proof
  show "\<forall>n. \<bar>n\<bar> \<le> 2147483647 \<longrightarrow> tag_fits (detectNumber (Fin (of_int n))) n"
  proof (intro allI impI)
    fix n :: int
    assume a: "\<bar>n\<bar> \<le> 2147483647"
    then have "detectNumber (Fin (of_int n)) = TYPE_INT32" by (rule detectNumber_int32)
    then show "tag_fits (detectNumber (Fin (of_int n))) n"
      using a by (auto simp: tag_fits_def)
  qed
next
  show "let t = detectNumber (Fin 1000); w = tag_width t
    in serialize_fresh default_options [] (JNum (Fin 1000))
         = Ok ([0x35, 0x52, 0x42, 0x54, 0x05, t] @ replicate ((w - 6 mod w) mod w) 0
               @ le_bytes w 1000)"
    by code_simp
qed

theorem integer_tag_contains_value_witness:
  "\<bar>1000 :: int\<bar> \<le> 2147483647 \<and> tag_fits (detectNumber (Fin (of_int 1000))) 1000"
  using integer_tag_contains_value [THEN conjunct1, rule_format, of 1000] by simp

section \<open>Strings, buffers and the tables of the reader\<close>

text \<open>
  C1 fails on the array \<open>["ab", "hello", "hello"]\<close>: the writer numbers only the
  strings longer than three code units, so the second \<open>"hello"\<close> is written as a
  reference to string 0; the reader numbers every string it reads, so its string 0 is
  \<open>"ab"\<close>, and the array comes back as \<open>["ab", "hello", "ab"]\<close>.
\<close>

theorem roundtrip_short_string_breaks_reference:
  "serialize_fresh default_options
     [HArray [Some (JStr (ascii ''ab'')), Some (JStr (ascii ''hello'')), Some (JStr (ascii ''hello''))]]
     (JObj 0)
   = Ok [0x35, 0x52, 0x42, 0x54, 0x05, 0x41, 0x03, 0x31, 0x02, 0x61, 0x62,
         0x31, 0x05, 0x68, 0x65, 0x6C, 0x6C, 0x6F, 0x37, 0x00] \<and>
   deserialize_fresh default_options
     [0x35, 0x52, 0x42, 0x54, 0x05, 0x41, 0x03, 0x31, 0x02, 0x61, 0x62,
      0x31, 0x05, 0x68, 0x65, 0x6C, 0x6C, 0x6F, 0x37, 0x00]
   = Ok (JObj 0,
         [HArray [Some (JStr (ascii ''ab'')), Some (JStr (ascii ''hello'')), Some (JStr (ascii ''ab''))]])"
  by code_simp

text \<open>
  C4 fails on its own scenario, two views of 16 bytes on one buffer of 32: the second
  view is written with the share flag 1, buffer 0, offset 16 and length 16; but the
  first was written with only the 16 bytes it covers, so the reader's buffer 0 has 16
  bytes and the host refuses the second view.
\<close>

theorem shared_views_fail_to_decode:
  "serialize_fresh default_options
     [HArray [Some (JObj 2), Some (JObj 3)], HArrayBuffer False (replicate 32 0),
      HTypedArray TYPE_UINT8ARRAY 1 0 16, HTypedArray TYPE_UINT8ARRAY 1 16 16]
     (JObj 0)
   = Ok ([0x35, 0x52, 0x42, 0x54, 0x05, 0x41, 0x02, 0x60, 0x00, 0x00, 0x10] @ replicate 16 0
         @ [0x60, 0x01, 0x00, 0x10, 0x10]) \<and>
   deserialize_fresh default_options
     ([0x35, 0x52, 0x42, 0x54, 0x05, 0x41, 0x02, 0x60, 0x00, 0x00, 0x10] @ replicate 16 0
      @ [0x60, 0x01, 0x00, 0x10, 0x10])
   = Err RangeError"
  by code_simp


section \<open>References beyond the tables\<close>

lemma readU8_at:
  "rpos s < length (buffer s) \<Longrightarrow>
   readU8 s = Ok (uint (buffer s ! rpos s), s\<lparr>rpos := Suc (rpos s)\<rparr>)"
  by (simp add: readU8_def sthen_def sbind_def ensureBytes_def take_bytes_def sreturn_def
                take_Suc_conv_app_nth hd_drop_conv_nth)

lemma readVarint_tables:
  "readVarint s = Ok (v, s') \<Longrightarrow>
   deserializeRefs s' = deserializeRefs s \<and> deserializeStrings s' = deserializeStrings s \<and>
   deserializeBuffers s' = deserializeBuffers s"
  by (auto simp: readVarint_def split: result.splits)

text \<open>
  C6. Whenever \<open>readValue\<close> is at a \<open>REFERENCE\<close>, \<open>STRING_REF\<close> or \<open>BUFFER_REF\<close> tag
  and the varint after it is an identifier not below the size the tag's table has at
  that moment, the call throws the invalid-reference error of that table and returns no
  value. Every caller of \<open>readValue\<close> passes an error on, there being no handler in the
  reader, so \<open>deserialize\<close> ends with the same error.
\<close>

theorem invalid_reference_fails:
  assumes inside: "rpos s < length (buffer s)"
    and tag: "reference_table (buffer s ! rpos s) = Some (table, tab)"
    and rid: "readVarint (s\<lparr>rpos := Suc (rpos s)\<rparr>) = Ok (refId, s')"
    and big: "int (length (tab s)) \<le> refId"
  shows "readValue (Suc n) s = Err (InvalidReference table refId)"
proof -
  let ?t = "buffer s ! rpos s"
  note tb = readVarint_tables [OF rid]
  have rr: "read_reference table tab (s\<lparr>rpos := Suc (rpos s)\<rparr>) = Err (InvalidReference table refId)"
  proof -
    from tag have "tab = deserializeRefs \<or> tab = deserializeStrings \<or> tab = deserializeBuffers"
      by (auto simp: reference_table_def split: if_splits)
    then have "tab s' = tab s" using tb by auto
    then show ?thesis
      using rid big by (simp add: read_reference_def sbind_def sget_def sthrow_def)
  qed
  from tag consider
      (obj) "?t = TYPE_REFERENCE" "table = ObjectTable" "tab = deserializeRefs"
    | (str) "?t = TYPE_STRING_REF" "table = StringTable" "tab = deserializeStrings"
    | (buf) "?t = TYPE_BUFFER_REF" "table = BufferTable" "tab = deserializeBuffers"
    by (auto simp: reference_table_def split: if_splits)
  then show ?thesis
  proof cases
    case obj
    then show ?thesis
      using inside rr
      by (simp add: readValue_body_def sbind_def sget_def readU8_at Let_def)
  next
    case str
    then show ?thesis
      using inside rr
      by (simp add: readValue_body_def sbind_def sget_def readU8_at Let_def)
  next
    case buf
    then show ?thesis
      using inside rr
      by (simp add: readValue_body_def sbind_def sget_def readU8_at Let_def)
  qed
qed

declare readVarint_loop.simps [simp del]

theorem invalid_reference_fails_witness:
  "rpos (reader_at [0x37, 0x07] 0) < length (buffer (reader_at [0x37, 0x07] 0)) \<and>
   reference_table (buffer (reader_at [0x37, 0x07] 0) ! rpos (reader_at [0x37, 0x07] 0))
     = Some (StringTable, deserializeStrings) \<and>
   readVarint ((reader_at [0x37, 0x07] 0)\<lparr>rpos := Suc (rpos (reader_at [0x37, 0x07] 0))\<rparr>)
     = Ok (7, (reader_at [0x37, 0x07] 0)\<lparr>rpos := 2\<rparr>) \<and>
   int (length (deserializeStrings (reader_at [0x37, 0x07] 0))) \<le> 7 \<and>
   readValue (Suc 0) (reader_at [0x37, 0x07] 0) = Err (InvalidReference StringTable 7)"
proof -
  let ?s = "reader_at [0x37, 0x07] 0"
  have a: "rpos ?s < length (buffer ?s)"
    by (simp add: reader_at_def new_codec_def)
  have b: "reference_table (buffer ?s ! rpos ?s) = Some (StringTable, deserializeStrings)"
    by (simp add: reader_at_def new_codec_def reference_table_def)
  have c: "readVarint (?s\<lparr>rpos := Suc (rpos ?s)\<rparr>) = Ok (7, ?s\<lparr>rpos := 2\<rparr>)"
    by (simp add: reader_at_def new_codec_def readVarint_def readVarint_loop.simps
                  js_or_def js_and_def js_shl_def toInt32_def toUint32_def)
  have d: "int (length (deserializeStrings ?s)) \<le> 7"
    by (simp add: reader_at_def new_codec_def)
  show ?thesis using a b c d invalid_reference_fails [OF a b c d, of 0] by simp
qed

text \<open>The same inside an array: the shell of the array is entry 0 of the table of
  objects when its element is read, and a reference to entry 3 ends the whole call.\<close>

lemma invalid_reference_in_array:
  "deserialize_fresh default_options [0x35, 0x52, 0x42, 0x54, 0x05, 0x41, 0x01, 0xD0, 0x03]
     = Err (InvalidReference ObjectTable 3)"
  by code_simp


section \<open>The numeric-array analyzer on arrays of integers\<close>

declare canOptimize_loop.simps [simp del]

lemma num_min_Fin: "num_min (Fin a) (Fin b) = Fin (min a b)"
  by (auto simp: num_min_def num_lt_def)

lemma num_max_Fin: "num_max (Fin a) (Fin b) = Fin (max a b)"
  by (auto simp: num_max_def num_lt_def)

lemma int_nums_Cons: "int_nums (n # ns) = Fin (of_int n) # int_nums ns"
  by (simp add: int_nums_def)

lemma toInt32_in_int32: "toInt32 n = n \<longleftrightarrow> in_int32 n"
proof
  assume "toInt32 n = n"
  then show "in_int32 n" using toInt32_range [of n] by (simp add: in_int32_def)
next
  assume "in_int32 n"
  then show "toInt32 n = n" by (intro toInt32_id) (simp_all add: in_int32_def)
qed

lemma of_int_eq_rat: "(of_int a :: rat) = of_int b \<longleftrightarrow> a = b"
  by simp

text \<open>The scan of an array of integers: the flags say whether every element is in the
  32-bit range and whether every element is a single-precision value; the minimum and
  maximum are integers that bound every element.\<close>

lemma analyze_scan_ints:
  "\<exists>a' b'. analyze_scan (int_nums ns) (i, Fin (of_int a), Fin (of_int b), f)
       = (i \<and> (\<forall>n\<in>set ns. in_int32 n), Fin (of_int a'), Fin (of_int b'),
          f \<and> (\<forall>n\<in>set ns. is_f32 (of_int n))) \<and>
     a' \<le> a \<and> b \<le> b' \<and> (\<forall>n\<in>set ns. a' \<le> n \<and> n \<le> b')"
proof (induction ns arbitrary: i a b f)
  case Nil
  show ?case by (simp add: int_nums_def)
next
  case (Cons n ns)
  let ?i = "i \<and> in_int32 n" and ?f = "f \<and> is_f32 (of_int n)"
  obtain a' b' where r: "analyze_scan (int_nums ns) (?i, Fin (of_int (min a n)), Fin (of_int (max b n)), ?f)
       = (?i \<and> (\<forall>n\<in>set ns. in_int32 n), Fin (of_int a'), Fin (of_int b'),
          ?f \<and> (\<forall>n\<in>set ns. is_f32 (of_int n)))"
     and bd: "a' \<le> min a n" "max b n \<le> b'" "\<forall>n\<in>set ns. a' \<le> n \<and> n \<le> b'"
    using Cons.IH [of ?i "min a n" "max b n" ?f] by blast
  have step: "analyze_scan (int_nums (n # ns)) (i, Fin (of_int a), Fin (of_int b), f)
      = analyze_scan (int_nums ns) (?i, Fin (of_int (min a n)), Fin (of_int (max b n)), ?f)"
    by (simp add: int_nums_Cons Let_def trunc_of_int num_eq_Fin num_min_Fin num_max_Fin
                  toInt32_in_int32 [symmetric] eq_commute [of n] of_int_min of_int_max)
  show ?case
    unfolding step r using bd by (intro exI [of _ a'] exI [of _ b']) auto
qed


lemma analyze_scan_start:
  assumes "ns \<noteq> []"
  shows "\<exists>a' b'. analyze_scan (int_nums ns) (True, PosInf, NegInf, True)
       = ((\<forall>n\<in>set ns. in_int32 n), Fin (of_int a'), Fin (of_int b'),
          (\<forall>n\<in>set ns. is_f32 (of_int n))) \<and>
     (\<forall>n\<in>set ns. a' \<le> n \<and> n \<le> b')"
proof -
  obtain n rest where ns: "ns = n # rest" using assms by (cases ns) auto
  have first: "analyze_scan (int_nums ns) (True, PosInf, NegInf, True)
      = analyze_scan (int_nums rest) (in_int32 n, Fin (of_int n), Fin (of_int n), is_f32 (of_int n))"
    unfolding ns
    by (simp add: int_nums_Cons Let_def trunc_of_int num_eq_Fin toInt32_in_int32 [symmetric]
                  eq_commute [of n] num_min_def num_max_def num_lt_def)
  obtain a' b' where r: "analyze_scan (int_nums rest) (in_int32 n, Fin (of_int n), Fin (of_int n), is_f32 (of_int n))
       = (in_int32 n \<and> (\<forall>n\<in>set rest. in_int32 n), Fin (of_int a'), Fin (of_int b'),
          is_f32 (of_int n) \<and> (\<forall>n\<in>set rest. is_f32 (of_int n)))"
     and bd: "a' \<le> n" "n \<le> b'" "\<forall>n\<in>set rest. a' \<le> n \<and> n \<le> b'"
    using analyze_scan_ints [of rest "in_int32 n" n n "is_f32 (of_int n)"] by blast
  show ?thesis
    unfolding first r using bd by (intro exI [of _ a'] exI [of _ b']) (auto simp: ns)
qed

lemma typeIndex_low_bits: "js_and (b2i a + 2 * b2i b + 4 * b2i c) 3 = b2i a + 2 * b2i b"
  by (cases a; cases b; cases c) (simp_all add: js_and_def b2i_def toInt32_def)

text \<open>The element type the analyzer picks for integers of the 32-bit range, by the
  greatest magnitude \<open>A\<close> of the minimum and the maximum.\<close>

lemma analyze_int32_type:
  assumes ne: "ns \<noteq> []" and all32: "\<forall>n\<in>set ns. in_int32 n"
  shows "\<exists>A. (\<forall>n\<in>set ns. \<bar>n\<bar> \<le> A) \<and>
     a_type (analyzeNumericArray (int_nums ns))
       = (if A \<le> 127 then TYPE_ARRAY_PACKED_I32
          else if A \<le> 32767 then TYPE_ARRAY_PACKED_I16 else TYPE_ARRAY_PACKED_I32)"
proof -
  obtain a' b' where sc: "analyze_scan (int_nums ns) (True, PosInf, NegInf, True)
       = (True, Fin (of_int a'), Fin (of_int b'), (\<forall>n\<in>set ns. is_f32 (of_int n)))"
     and bd: "\<forall>n\<in>set ns. a' \<le> n \<and> n \<le> b'"
    using analyze_scan_start [OF ne] all32 by auto
  define A where "A = max \<bar>a'\<bar> \<bar>b'\<bar>"
  have absMax: "num_max (num_abs (Fin (of_int a'))) (num_abs (Fin (of_int b'))) = Fin (of_int A)"
    by (simp add: num_max_Fin A_def)
  have le: "\<And>c. num_le (Fin (of_int A)) (Fin (of_int c)) \<longleftrightarrow> A \<le> c"
    by (simp add: num_le_Fin)
  have le': "num_le (Fin (of_int A)) (Fin 127) \<longleftrightarrow> A \<le> 127"
    "num_le (Fin (of_int A)) (Fin 32767) \<longleftrightarrow> A \<le> 32767"
    "num_le (Fin (of_int A)) (Fin 2147483647) \<longleftrightarrow> A \<le> 2147483647"
    using le [of 127] le [of 32767] le [of 2147483647] by simp_all
  have bound: "\<forall>n\<in>set ns. \<bar>n\<bar> \<le> A" using bd by (auto simp: A_def)
  define idx where "idx = js_and
      (js_or (js_or (js_shl (b2i (A \<le> 127)) 0) (js_shl (b2i (A \<le> 32767)) 1))
             (js_shl (b2i (A \<le> 2147483647)) 2)) 3"
  have idx: "idx = b2i (A \<le> 127) + 2 * b2i (A \<le> 32767)"
    unfolding idx_def One_nat_def by (simp only: typeIndex_value typeIndex_low_bits)
  have unfold: "analyzeNumericArray (int_nums ns) =
      [\<lparr>a_type = TYPE_ARRAY_PACKED_I32, a_elementSize = 4\<rparr>,
       \<lparr>a_type = TYPE_ARRAY_PACKED_I8, a_elementSize = 1\<rparr>,
       \<lparr>a_type = TYPE_ARRAY_PACKED_I16, a_elementSize = 2\<rparr>,
       \<lparr>a_type = TYPE_ARRAY_PACKED_I32, a_elementSize = 4\<rparr>] ! nat idx"
    unfolding analyzeNumericArray_def sc Let_def prod.case absMax le' idx_def by simp
  have ty: "a_type (analyzeNumericArray (int_nums ns))
       = (if A \<le> 127 then TYPE_ARRAY_PACKED_I32
          else if A \<le> 32767 then TYPE_ARRAY_PACKED_I16 else TYPE_ARRAY_PACKED_I32)"
    unfolding unfold idx by (simp add: b2i_def numeral_3_eq_3 numeral_2_eq_2)
  show ?thesis using bound ty by blast
qed

lemma analyze_overflow_type:
  assumes ne: "ns \<noteq> []" and some: "\<not> (\<forall>n\<in>set ns. in_int32 n)"
  shows "a_type (analyzeNumericArray (int_nums ns))
       = (if \<forall>n\<in>set ns. is_f32 (of_int n) then TYPE_ARRAY_PACKED_F32 else TYPE_ARRAY_PACKED_F64)"
proof -
  obtain a' b' where sc: "analyze_scan (int_nums ns) (True, PosInf, NegInf, True)
       = (False, Fin (of_int a'), Fin (of_int b'), (\<forall>n\<in>set ns. is_f32 (of_int n)))"
    using analyze_scan_start [OF ne] some by auto
  show ?thesis by (simp add: analyzeNumericArray_def sc)
qed

lemma canOptimize_length: "canOptimize arr \<Longrightarrow> 8 \<le> length arr"
  by (auto simp: canOptimize_def Let_def split: if_splits)

lemma to_numbers_ints: "to_numbers (map (\<lambda>n. JNum (Fin (of_int n))) ns) = Ok (int_nums ns)"
  by (induction ns) (simp_all add: int_nums_def bind_def)

lemma int_array_elements:
  "map (array_get (int_array ns)) [0..<length (int_array ns)] = map (\<lambda>n. JNum (Fin (of_int n))) ns"
  by (rule nth_equalityI) (simp_all add: int_array_def array_get_def)

lemma detectArray_ints:
  assumes "canOptimize (int_array ns)"
  shows "detectArray (int_array ns) = Ok (a_type (analyzeNumericArray (int_nums ns)))"
proof -
  have len: "length (int_array ns) = length ns" by (simp add: int_array_def)
  have ne: "length ns \<noteq> 0" using canOptimize_length [OF assms] len by auto
  have full: "filter (\<lambda>e. e \<noteq> None) (int_array ns) = int_array ns"
    by (simp add: int_array_def filter_map o_def)
  have full': "filter (\<lambda>e. \<exists>y. e = Some y) (int_array ns) = int_array ns"
    by (simp add: int_array_def filter_map o_def)
  have noholes: "\<not> (\<exists>e\<in>set (int_array ns). e = None)"
    by (auto simp: int_array_def)
  have "js_ushr (int (length ns) * 3) 2 \<le> int (length ns) * 3 div 4"
    by (simp add: js_ushr_def toUint32_def zdiv_mono1 zmod_le_nonneg_dividend)
  then have thr: "\<not> int (length ns) < js_ushr (int (length ns) * 3) 2" by linarith
  show ?thesis
    using assms ne noholes thr int_array_elements [of ns]
    by (simp add: detectArray_def Let_def full full' len to_numbers_ints bind_def)
qed

text \<open>
  C2 (amended). On an array of integers that passed the eligibility gate
  \<open>canOptimize\<close>, the classifier answers the element type of the numeric-array
  analyzer. When every element is in the signed 32-bit range, that type is one of the
  signed packed types i8, i16, i32 and its range contains every element. When some
  element is beyond the 32-bit range, the type is \<open>ARRAY_PACKED_F32\<close> if every element
  is a single-precision value and \<open>ARRAY_PACKED_F64\<close> otherwise.
\<close>

theorem analyzer_integer_array:
  assumes gate: "canOptimize (int_array ns)"
  shows "detectArray (int_array ns) = Ok (a_type (analyzeNumericArray (int_nums ns))) \<and>
     ((\<forall>n\<in>set ns. in_int32 n) \<longrightarrow>
        (\<forall>n\<in>set ns. packed_fits (a_type (analyzeNumericArray (int_nums ns))) n)) \<and>
     (\<not> (\<forall>n\<in>set ns. in_int32 n) \<longrightarrow>
        a_type (analyzeNumericArray (int_nums ns))
          = (if \<forall>n\<in>set ns. is_f32 (of_int n) then TYPE_ARRAY_PACKED_F32
             else TYPE_ARRAY_PACKED_F64))"
proof (intro conjI impI)
  show "detectArray (int_array ns) = Ok (a_type (analyzeNumericArray (int_nums ns)))"
    using gate by (rule detectArray_ints)
next
  have ne: "ns \<noteq> []" using canOptimize_length [OF gate] by (auto simp: int_array_def)
  {
    assume all32: "\<forall>n\<in>set ns. in_int32 n"
    obtain A where A: "\<forall>n\<in>set ns. \<bar>n\<bar> \<le> A"
      "a_type (analyzeNumericArray (int_nums ns))
         = (if A \<le> 127 then TYPE_ARRAY_PACKED_I32
            else if A \<le> 32767 then TYPE_ARRAY_PACKED_I16 else TYPE_ARRAY_PACKED_I32)"
      using analyze_int32_type [OF ne all32] by blast
    show "\<forall>n\<in>set ns. packed_fits (a_type (analyzeNumericArray (int_nums ns))) n"
    proof
      fix n assume n: "n \<in> set ns"
      then have "\<bar>n\<bar> \<le> A" "in_int32 n" using A(1) all32 by auto
      then show "packed_fits (a_type (analyzeNumericArray (int_nums ns))) n"
        unfolding A(2) by (auto simp: packed_fits_def in_int32_def)
    qed
  }
  {
    assume "\<not> (\<forall>n\<in>set ns. in_int32 n)"
    then show "a_type (analyzeNumericArray (int_nums ns))
          = (if \<forall>n\<in>set ns. is_f32 (of_int n) then TYPE_ARRAY_PACKED_F32
             else TYPE_ARRAY_PACKED_F64)"
      by (rule analyze_overflow_type [OF ne])
  }
qed

text \<open>The theorem at the array \<open>[1..16]\<close> and at sixteen copies of \<open>2\<^sup>3\<^sup>1\<close>.\<close>

theorem analyzer_integer_array_witness:
  "canOptimize (int_array [1, 2, 3, 4, 5, 6, 7, 8, 9, 10, 11, 12, 13, 14, 15, 16]) \<and>
   detectArray (int_array [1, 2, 3, 4, 5, 6, 7, 8, 9, 10, 11, 12, 13, 14, 15, 16])
     = Ok (a_type (analyzeNumericArray (int_nums [1, 2, 3, 4, 5, 6, 7, 8, 9, 10, 11, 12, 13, 14, 15, 16]))) \<and>
   packed_fits (a_type (analyzeNumericArray (int_nums [1, 2, 3, 4, 5, 6, 7, 8, 9, 10, 11, 12, 13, 14, 15, 16]))) 16 \<and>
   canOptimize (int_array (replicate 16 2147483648)) \<and>
   a_type (analyzeNumericArray (int_nums (replicate 16 2147483648))) = TYPE_ARRAY_PACKED_F32"
proof -
  let ?small = "[1, 2, 3, 4, 5, 6, 7, 8, 9, 10, 11, 12, 13, 14, 15, 16] :: int list"
  let ?large = "replicate 16 2147483648 :: int list"
  have g1: "canOptimize (int_array ?small)" by code_simp
  have r1: "\<forall>n\<in>set ?small. in_int32 n" by (simp add: in_int32_def)
  have g2: "canOptimize (int_array ?large)" by code_simp
  have r2: "\<not> (\<forall>n\<in>set ?large. in_int32 n)" by (simp add: in_int32_def)
  have f2: "\<forall>n\<in>set ?large. is_f32 (of_int n)" by code_simp
  have "packed_fits (a_type (analyzeNumericArray (int_nums ?small))) 16"
    using analyzer_integer_array [OF g1] r1 by simp
  moreover have "detectArray (int_array ?small) = Ok (a_type (analyzeNumericArray (int_nums ?small)))"
    using analyzer_integer_array [OF g1] by simp
  moreover have "a_type (analyzeNumericArray (int_nums ?large)) = TYPE_ARRAY_PACKED_F32"
    using analyzer_integer_array [OF g2] r2 f2 by simp
  ultimately show ?thesis using g1 g2 by simp
qed

text \<open>
  C2 as the specification words it fails twice: the array \<open>[1..16]\<close> passes the gate and
  is classified \<open>ARRAY_PACKED_I32\<close> (0x45), not \<open>ARRAY_PACKED_I8\<close> (0x43); sixteen copies of
  \<open>2\<^sup>3\<^sup>1\<close>, integers beyond the 32-bit range, are classified \<open>ARRAY_PACKED_F32\<close> (0x46),
  not \<open>ARRAY_PACKED_F64\<close> (0x47).
\<close>

theorem analyzer_small_integers_counterexample:
  "canOptimize (int_array [1, 2, 3, 4, 5, 6, 7, 8, 9, 10, 11, 12, 13, 14, 15, 16]) \<and>
   detectArray (int_array [1, 2, 3, 4, 5, 6, 7, 8, 9, 10, 11, 12, 13, 14, 15, 16])
     = Ok TYPE_ARRAY_PACKED_I32 \<and>
   TYPE_ARRAY_PACKED_I32 \<noteq> TYPE_ARRAY_PACKED_I8 \<and>
   canOptimize (int_array (replicate 16 2147483648)) \<and>
   detectArray (int_array (replicate 16 2147483648)) = Ok TYPE_ARRAY_PACKED_F32 \<and>
   TYPE_ARRAY_PACKED_F32 \<noteq> TYPE_ARRAY_PACKED_F64"
  by code_simp

end
